theory Spec2Isabelle
  imports Complex_Main
begin

section \<open>Tables\<close>

text \<open>
  The program (\<^verbatim>\<open>main.py\<close>) works on pandas data frames. A frame is modelled by the
  length of its row index and the ordered list of its labelled columns. Column order
  matters to the program (it is what the model is fed), so the columns are an association
  list, not a map.

  A cell is a string, a number, a timestamp or the missing marker (pandas' NaN, NaT and
  None, which \<^verbatim>\<open>isna\<close> does not tell apart). The day counts the program computes are
  integers far below \<open>2^53\<close> and a median of them is such an integer or a half of one, so
  the float64 values pandas holds are modelled exactly by rationals.

  Of a timestamp the program reads the calendar year, the calendar month and, through the
  subtraction of two timestamps, its position on the time line in nanoseconds and whether
  it carries a time zone; a timestamp is the record of these four observations.
\<close>

record timestamp =
  ts_year :: int
  ts_month :: int
  ts_ns :: int
  ts_aware :: bool

datatype cell = Str string | Num rat | TS timestamp | NA

datatype error =
    FileNotFoundError string
  | ValueError string
  | TypeError string
  | KeyError string
  | OtherError string

record dataframe =
  nrows :: nat
  cols :: "(string \<times> cell list) list"

text \<open>
  The frames \<^verbatim>\<open>read_csv\<close> produces have unique column labels (it renames duplicates) and
  every column has one cell per row.
\<close>

definition wf_frame :: "dataframe \<Rightarrow> bool" where
  "wf_frame df = (distinct (map fst (cols df)) \<and> list_all (\<lambda>c. length (snd c) = nrows df) (cols df))"

text \<open>\<^verbatim>\<open>df.columns\<close>, \<^verbatim>\<open>df.copy()\<close> (frames are values here, so a copy is the frame itself).\<close>

definition columns :: "dataframe \<Rightarrow> string list" where
  "columns df = map fst (cols df)"

definition frame_copy :: "dataframe \<Rightarrow> dataframe" where
  "frame_copy df = df"

text \<open>Sequencing of fallible steps: the first exception raised is the result.\<close>

definition on_ok :: "error + 'a \<Rightarrow> ('a \<Rightarrow> error + 'b) \<Rightarrow> error + 'b" where
  "on_ok r f = (case r of Inl e \<Rightarrow> Inl e | Inr x \<Rightarrow> f x)"

text \<open>
  \<^verbatim>\<open>df[key]\<close>: the column of that label (there is one at most in a frame with unique
  labels); \<^verbatim>\<open>KeyError\<close> when there is none.
\<close>

definition getitem :: "dataframe \<Rightarrow> string \<Rightarrow> error + cell list" where
  "getitem df key = (case map_of (cols df) key of None \<Rightarrow> Inl (KeyError key) | Some v \<Rightarrow> Inr v)"

text \<open>
  Storing a column under a label: an existing label keeps its position and gets the new
  cells, a new label is appended as the last column.
\<close>

definition set_column :: "dataframe \<Rightarrow> string \<Rightarrow> cell list \<Rightarrow> dataframe" where
  "set_column df key v =
     (if key \<in> set (columns df)
      then df\<lparr>cols := map (\<lambda>c. if fst c = key then (key, v) else c) (cols df)\<rparr>
      else df\<lparr>cols := cols df @ [(key, v)]\<rparr>)"

text \<open>
  \<^verbatim>\<open>df[key] = series\<close> where the series was computed from columns of \<open>df\<close> itself: it
  carries the frame's own index, so the alignment pandas performs is the identity.
\<close>

definition setitem_series :: "dataframe \<Rightarrow> string \<Rightarrow> cell list \<Rightarrow> dataframe" where
  "setitem_series df key v = set_column df key v"

text \<open>
  \<^verbatim>\<open>df[key] = values\<close> where the values are a plain array (what a predictor returns).
  pandas first gives a frame whose index is empty the index of a non-empty value (the
  existing columns are filled with missing cells), then requires the length of the value
  to match the length of the index and raises \<^verbatim>\<open>ValueError\<close> otherwise (pandas' message
  also gives the two lengths, which are left out here).
\<close>

definition reindex_rows :: "nat \<Rightarrow> dataframe \<Rightarrow> dataframe" where
  "reindex_rows n df = \<lparr>nrows = n, cols = map (\<lambda>c. (fst c, replicate n NA)) (cols df)\<rparr>"

definition setitem_values :: "dataframe \<Rightarrow> string \<Rightarrow> cell list \<Rightarrow> error + dataframe" where
  "setitem_values df key v =
     (let df = (if nrows df = 0 \<and> v \<noteq> [] then reindex_rows (length v) df else df)
      in if length v \<noteq> nrows df
         then Inl (ValueError ''Length of values does not match length of index'')
         else Inr (set_column df key v))"

text \<open>
  \<^verbatim>\<open>df.drop(columns=[c])\<close>: every column of that label is removed; \<^verbatim>\<open>KeyError\<close> when
  the label is not a column.
\<close>

definition drop_column :: "dataframe \<Rightarrow> string \<Rightarrow> error + dataframe" where
  "drop_column df c =
     (if c \<in> set (columns df)
      then Inr (df\<lparr>cols := filter (\<lambda>col. fst col \<noteq> c) (cols df)\<rparr>)
      else Inl (KeyError c))"

section \<open>Series operations used by the feature engineering\<close>

text \<open>
  A datetime column has one dtype: its timestamps all carry a time zone or none does.
  \<open>tz_aware\<close> says that the column is of the first kind; a column without any timestamp
  (all cells missing, or no row) is of the second.
\<close>

definition tz_aware :: "cell list \<Rightarrow> bool" where
  "tz_aware xs = (\<exists>c\<in>set xs. case c of TS t \<Rightarrow> ts_aware t | _ \<Rightarrow> False)"

definition has_naive :: "cell list \<Rightarrow> bool" where
  "has_naive xs = (\<exists>c\<in>set xs. case c of TS t \<Rightarrow> \<not> ts_aware t | _ \<Rightarrow> False)"

text \<open>
  \<^verbatim>\<open>pd.to_datetime(series, errors="coerce")\<close>: a datetime column of the same length, or
  an exception. How a column is read is pandas' business (the format is inferred from the
  column), so it is a parameter: given the column, the reading either raises (a column of
  booleans, time zones that differ) or tells for each cell the timestamp read, \<open>None\<close>
  when the cell does not parse, which \<^verbatim>\<open>errors="coerce"\<close> turns into a missing cell.
  Missing cells stay missing and timestamps stay as they are. Zoned and unzoned timestamps
  in one column are no datetime column: pandas raises \<^verbatim>\<open>ValueError\<close>.
\<close>

type_synonym parser = "cell list \<Rightarrow> error + (cell \<Rightarrow> timestamp option)"

definition to_datetime :: "parser \<Rightarrow> cell list \<Rightarrow> error + cell list" where
  "to_datetime parse xs =
     on_ok (parse xs) (\<lambda>stamp.
       let ys = map (\<lambda>c. case c of
                            NA \<Rightarrow> NA
                          | TS t \<Rightarrow> TS t
                          | _ \<Rightarrow> (case stamp c of None \<Rightarrow> NA | Some t \<Rightarrow> TS t)) xs
       in if tz_aware ys \<and> has_naive ys
          then Inl (ValueError ''Cannot mix tz-aware with tz-naive values'')
          else Inr ys)"

text \<open>\<^verbatim>\<open>.dt.year\<close> and \<^verbatim>\<open>.dt.month\<close> of a datetime column.\<close>

definition dt_year :: "cell list \<Rightarrow> cell list" where
  "dt_year xs = map (\<lambda>c. case c of TS t \<Rightarrow> Num (of_int (ts_year t)) | _ \<Rightarrow> NA) xs"

definition dt_month :: "cell list \<Rightarrow> cell list" where
  "dt_month xs = map (\<lambda>c. case c of TS t \<Rightarrow> Num (of_int (ts_month t)) | _ \<Rightarrow> NA) xs"

text \<open>
  The difference of two datetime columns, row by row, in nanoseconds (\<open>None\<close> is the
  missing time delta). pandas subtracts two zoned or two unzoned columns and raises
  \<^verbatim>\<open>TypeError\<close> for a zoned and an unzoned one. \<^verbatim>\<open>.dt.days\<close> is the whole days of a
  time delta, rounded down.
\<close>

definition sub_series :: "cell list \<Rightarrow> cell list \<Rightarrow> error + int option list" where
  "sub_series xs ys =
     (if tz_aware xs \<noteq> tz_aware ys
      then Inl (TypeError ''Cannot subtract tz-naive and tz-aware datetime-like objects.'')
      else Inr (map (\<lambda>(x, y). case (x, y) of (TS a, TS b) \<Rightarrow> Some (ts_ns a - ts_ns b) | _ \<Rightarrow> None)
                    (zip xs ys)))"

definition dt_days :: "int option list \<Rightarrow> cell list" where
  "dt_days ds =
     map (\<lambda>d. case d of None \<Rightarrow> NA | Some n \<Rightarrow> Num (of_int (n div 86400000000000))) ds"

text \<open>\<^verbatim>\<open>series.isna().any()\<close>.\<close>

definition isna_any :: "cell list \<Rightarrow> bool" where
  "isna_any s = (NA \<in> set s)"

text \<open>
  \<^verbatim>\<open>series.median()\<close> of a numeric column: the missing cells are skipped; the median of
  what is left is the middle value of the sorted values, the mean of the two middle
  values when their number is even, and missing when nothing is left.
\<close>

fun dropna :: "cell list \<Rightarrow> rat list" where
  "dropna [] = []"
| "dropna (Num v # xs) = v # dropna xs"
| "dropna (_ # xs) = dropna xs"

definition median :: "rat list \<Rightarrow> rat option" where
  "median xs =
     (let s = sort xs; n = length s
      in if n = 0 then None
         else if odd n then Some (s ! (n div 2))
         else Some ((s ! (n div 2 - 1) + s ! (n div 2)) / 2))"

definition series_median :: "cell list \<Rightarrow> cell" where
  "series_median s = (case median (dropna s) of None \<Rightarrow> NA | Some m \<Rightarrow> Num m)"

text \<open>\<^verbatim>\<open>series.fillna(v)\<close>: filling with a missing value changes nothing.\<close>

definition fillna :: "cell list \<Rightarrow> cell \<Rightarrow> cell list" where
  "fillna s v = map (\<lambda>c. if c = NA then v else c) s"

text \<open>\<^verbatim>\<open>sep.join(xs)\<close>.\<close>

fun join :: "string \<Rightarrow> string list \<Rightarrow> string" where
  "join sep [] = []"
| "join sep [x] = x"
| "join sep (x # y # ys) = x @ sep @ join sep (y # ys)"

section \<open>Loading the dataset\<close>







section \<open>Feature engineering\<close>

text \<open>
  \<^verbatim>\<open>add_feature_engineering\<close> (lines 28 to 46). \<open>needed_cols\<close> and \<open>missing\<close> are Python
  sets; the order in which \<^verbatim>\<open>join\<close> walks the two-element set is not fixed by Python,
  so it is a parameter (\<open>swapped\<close>). Lines 36, 37 and 41 can raise: a column that pandas
  does not read as a datetime column, a zoned date column against an unzoned one.
\<close>

definition needed_cols :: "string list" where
  "needed_cols = [''Order Date'', ''Ship Date'']"

definition missing_cols :: "bool \<Rightarrow> dataframe \<Rightarrow> string list" where
  "missing_cols swapped df =
     filter (\<lambda>c. c \<notin> set (columns df)) (if swapped then rev needed_cols else needed_cols)"

definition add_feature_engineering :: "parser \<Rightarrow> bool \<Rightarrow> dataframe \<Rightarrow> error + dataframe" where
  "add_feature_engineering parse swapped df_in =
     (let df = frame_copy df_in in
      if \<not> set needed_cols \<subseteq> set (columns df)
      then Inl (ValueError (''Kolom wajib tidak ada: '' @ join '', '' (missing_cols swapped df)))
      else
        on_ok (getitem df ''Order Date'') (\<lambda>od.
        on_ok (to_datetime parse od) (\<lambda>od_dt.
        let df = setitem_series df ''Order Date'' od_dt in
        on_ok (getitem df ''Ship Date'') (\<lambda>sd.
        on_ok (to_datetime parse sd) (\<lambda>sd_dt.
        let df = setitem_series df ''Ship Date'' sd_dt in
        on_ok (getitem df ''Order Date'') (\<lambda>od.
        let df = setitem_series df ''OrderYear'' (dt_year od) in
        on_ok (getitem df ''Order Date'') (\<lambda>od.
        let df = setitem_series df ''OrderMonth'' (dt_month od) in
        on_ok (getitem df ''Ship Date'') (\<lambda>sd.
        on_ok (getitem df ''Order Date'') (\<lambda>od.
        on_ok (sub_series sd od) (\<lambda>delta.
        let df = setitem_series df ''ShipDays'' (dt_days delta) in
        on_ok (getitem df ''ShipDays'') (\<lambda>s.
        if isna_any s
        then on_ok (getitem df ''ShipDays'') (\<lambda>s1.
             on_ok (getitem df ''ShipDays'') (\<lambda>s2.
             Inr (setitem_series df ''ShipDays'' (fillna s1 (series_median s2)))))
        else Inr df)))))))))))"

section \<open>Feature selection\<close>

text \<open>
  \<^verbatim>\<open>prepare_features\<close> (lines 48 to 59): the loop over \<open>drop_cols\<close>, then the target.
  \<open>drop_cols\<close> is walked in the order the artifact's collection yields it.
\<close>

fun drop_loop :: "string list \<Rightarrow> dataframe \<Rightarrow> error + dataframe" where
  "drop_loop [] df = Inr df"
| "drop_loop (c # cs) df =
     (if c \<in> set (columns df)
      then on_ok (drop_column df c) (drop_loop cs)
      else drop_loop cs df)"

definition prepare_features :: "dataframe \<Rightarrow> string list \<Rightarrow> string \<Rightarrow> error + dataframe" where
  "prepare_features df_enriched drop_cols target_col =
     on_ok (drop_loop drop_cols (frame_copy df_enriched)) (\<lambda>df.
       if target_col \<in> set (columns df)
       then drop_column df target_col
       else Inr df)"

text \<open>
  The same function with the objects made explicit. A frame variable of Python holds a
  reference; the store is the list of the frames that exist, a reference is a position in
  it. \<^verbatim>\<open>df.copy()\<close> and \<^verbatim>\<open>df.drop(columns=[c])\<close> make a new object and leave the one
  they are called on as it is; \<^verbatim>\<open>df = ...\<close> makes the variable refer to the new object.
\<close>

type_synonym store = "dataframe list"

definition new_object :: "store \<Rightarrow> dataframe \<Rightarrow> nat \<times> store" where
  "new_object h v = (length h, h @ [v])"

definition deref :: "store \<Rightarrow> nat \<Rightarrow> error + dataframe" where
  "deref h r = (if r < length h then Inr (h ! r) else Inl (OtherError ''no such object''))"

definition copy_object :: "store \<Rightarrow> nat \<Rightarrow> (error + nat) \<times> store" where
  "copy_object h r =
     (case deref h r of
        Inl e \<Rightarrow> (Inl e, h)
      | Inr v \<Rightarrow> (case new_object h (frame_copy v) of (r', h') \<Rightarrow> (Inr r', h')))"

definition drop_object :: "store \<Rightarrow> nat \<Rightarrow> string \<Rightarrow> (error + nat) \<times> store" where
  "drop_object h r c =
     (case deref h r of
        Inl e \<Rightarrow> (Inl e, h)
      | Inr v \<Rightarrow> (case drop_column v c of
                   Inl e \<Rightarrow> (Inl e, h)
                 | Inr v' \<Rightarrow> (case new_object h v' of (r', h') \<Rightarrow> (Inr r', h'))))"

fun drop_loop_st :: "string list \<Rightarrow> nat \<Rightarrow> store \<Rightarrow> (error + nat) \<times> store" where
  "drop_loop_st [] df h = (Inr df, h)"
| "drop_loop_st (c # cs) df h =
     (case deref h df of
        Inl e \<Rightarrow> (Inl e, h)
      | Inr v \<Rightarrow>
          if c \<in> set (columns v)
          then (case drop_object h df c of
                  (Inl e, h') \<Rightarrow> (Inl e, h')
                | (Inr df', h') \<Rightarrow> drop_loop_st cs df' h')
          else drop_loop_st cs df h)"

definition prepare_features_st ::
  "nat \<Rightarrow> string list \<Rightarrow> string \<Rightarrow> store \<Rightarrow> (error + nat) \<times> store" where
  "prepare_features_st df_enriched drop_cols target_col h =
     (case copy_object h df_enriched of
        (Inl e, h1) \<Rightarrow> (Inl e, h1)
      | (Inr df, h1) \<Rightarrow>
          (case drop_loop_st drop_cols df h1 of
             (Inl e, h2) \<Rightarrow> (Inl e, h2)
           | (Inr df, h2) \<Rightarrow>
               (case deref h2 df of
                  Inl e \<Rightarrow> (Inl e, h2)
                | Inr v \<Rightarrow>
                    if target_col \<in> set (columns v)
                    then drop_object h2 df target_col
                    else (Inr df, h2))))"

section \<open>Prediction\<close>

text \<open>
  A model artifact holds the trained model, of which the program uses \<^verbatim>\<open>predict\<close> only
  (it may raise), the labels to drop and the target label. The two prediction blocks
  (lines 160 to 166 and 215 to 221) are the program's own; what follows them in the
  \<^verbatim>\<open>try\<close> is display only.
\<close>

record artifact =
  model_predict :: "dataframe \<Rightarrow> error + cell list"
  drop_cols :: "string list"
  target_col :: string

definition predict_segment :: "artifact \<Rightarrow> dataframe \<Rightarrow> dataframe \<Rightarrow> error + dataframe" where
  "predict_segment artifact_cls df_raw df_enriched =
     on_ok (prepare_features df_enriched (drop_cols artifact_cls) (target_col artifact_cls)) (\<lambda>X_pred.
     on_ok (model_predict artifact_cls X_pred) (\<lambda>preds.
     let out = frame_copy df_raw in
     setitem_values out ''Predicted Segment'' preds))"

definition predict_sales :: "artifact \<Rightarrow> dataframe \<Rightarrow> dataframe \<Rightarrow> error + dataframe" where
  "predict_sales artifact_reg df_raw df_enriched =
     on_ok (prepare_features df_enriched (drop_cols artifact_reg) (target_col artifact_reg)) (\<lambda>X_pred.
     on_ok (model_predict artifact_reg X_pred) (\<lambda>preds.
     let out = frame_copy df_raw in
     setitem_values out (''Predicted '' @ target_col artifact_reg) preds))"

text \<open>
  One prediction run of the script on a loaded table: the feature engineering (line 126),
  then the block of the selected mode. \<open>predicted_label\<close> is the label under which the
  block of a mode stores the predictions (the literal of line 166, the f-string of
  line 221).
\<close>

datatype mode = Klasifikasi_Segment | Regresi_Sales

definition predicted_label :: "mode \<Rightarrow> artifact \<Rightarrow> string" where
  "predicted_label m art =
     (case m of Klasifikasi_Segment \<Rightarrow> ''Predicted Segment''
              | Regresi_Sales \<Rightarrow> ''Predicted '' @ target_col art)"

definition prediction_run :: "parser \<Rightarrow> bool \<Rightarrow> mode \<Rightarrow> artifact \<Rightarrow> dataframe \<Rightarrow> error + dataframe" where
  "prediction_run parse swapped m art df_raw =
     on_ok (add_feature_engineering parse swapped df_raw) (\<lambda>df_enriched.
       case m of Klasifikasi_Segment \<Rightarrow> predict_segment art df_raw df_enriched
               | Regresi_Sales \<Rightarrow> predict_sales art df_raw df_enriched)"

section \<open>Example inputs\<close>

text \<open>
  Concrete tables, parsers, artifacts and files on which the theorems below are
  evaluated. \<open>demo_parse\<close> reads the ISO dates that occur in the examples as pandas does
  (midnight of that day, in nanoseconds since 1970-01-01; the one that ends in \<open>Z\<close>
  carries the zone UTC) and nothing else.
\<close>

definition demo_parse :: parser where
  "demo_parse col =
     Inr (map_of
       [(Str ''2023-01-05'', \<lparr>ts_year = 2023, ts_month = 1, ts_ns = 19362 * 86400000000000, ts_aware = False\<rparr>),
        (Str ''2023-01-10'', \<lparr>ts_year = 2023, ts_month = 1, ts_ns = 19367 * 86400000000000, ts_aware = False\<rparr>),
        (Str ''2023-02-01'', \<lparr>ts_year = 2023, ts_month = 2, ts_ns = 19389 * 86400000000000, ts_aware = False\<rparr>),
        (Str ''2023-02-03'', \<lparr>ts_year = 2023, ts_month = 2, ts_ns = 19391 * 86400000000000, ts_aware = False\<rparr>),
        (Str ''2023-02-04'', \<lparr>ts_year = 2023, ts_month = 2, ts_ns = 19392 * 86400000000000, ts_aware = False\<rparr>),
        (Str ''2023-03-15'', \<lparr>ts_year = 2023, ts_month = 3, ts_ns = 19431 * 86400000000000, ts_aware = False\<rparr>),
        (Str ''2023-01-10T00:00:00Z'',
           \<lparr>ts_year = 2023, ts_month = 1, ts_ns = 19367 * 86400000000000, ts_aware = True\<rparr>)])"

text \<open>Three orders; the ship date of the third is not a date.\<close>

definition scenario1 :: dataframe where
  "scenario1 = \<lparr>nrows = 3, cols =
     [(''Segment'', [Str ''Consumer'', Str ''Corporate'', Str ''Consumer'']),
      (''Order Date'', [Str ''2023-01-05'', Str ''2023-02-01'', Str ''2023-03-15'']),
      (''Ship Date'', [Str ''2023-01-10'', Str ''2023-02-03'', Str ''pending''])]\<rparr>"

text \<open>
  Five orders with 5, 2, no, 30 and 3 days between order and shipping, and the first four
  of them.
\<close>

definition five_orders :: dataframe where
  "five_orders = \<lparr>nrows = 5, cols =
     [(''Order Date'', [Str ''2023-01-05'', Str ''2023-02-01'', Str ''2023-03-15'',
                        Str ''2023-01-05'', Str ''2023-02-01'']),
      (''Ship Date'', [Str ''2023-01-10'', Str ''2023-02-03'', Str ''pending'',
                       Str ''2023-02-04'', Str ''2023-02-04''])]\<rparr>"

definition four_orders :: dataframe where
  "four_orders = \<lparr>nrows = 4, cols =
     [(''Order Date'', [Str ''2023-01-05'', Str ''2023-02-01'', Str ''2023-03-15'', Str ''2023-01-05'']),
      (''Ship Date'', [Str ''2023-01-10'', Str ''2023-02-03'', Str ''pending'', Str ''2023-02-04''])]\<rparr>"




text \<open>Two orders, neither with a ship date (empty CSV fields).\<close>

definition no_ship_dates :: dataframe where
  "no_ship_dates = \<lparr>nrows = 2, cols =
     [(''Order Date'', [Str ''2023-01-05'', Str ''2023-02-01'']),
      (''Ship Date'', [NA, NA])]\<rparr>"

text \<open>A table without the column \<open>Ship Date\<close>, and one with neither date column.\<close>

definition no_ship_column :: dataframe where
  "no_ship_column = \<lparr>nrows = 1, cols =
     [(''Segment'', [Str ''Consumer'']),
      (''Order Date'', [Str ''2023-01-05''])]\<rparr>"

definition no_date_columns :: dataframe where
  "no_date_columns = \<lparr>nrows = 1, cols = [(''Segment'', [Str ''Consumer''])]\<rparr>"

text \<open>
  Stub predictors: one answers \<open>Consumer\<close> for every row, one answers the row numbers,
  one answers a single \<open>Consumer\<close> whatever the table.
\<close>

definition consumer_artifact :: artifact where
  "consumer_artifact =
     \<lparr>model_predict = (\<lambda>X. Inr (replicate (nrows X) (Str ''Consumer''))),
      drop_cols = [''Row ID'', ''Segment''],
      target_col = ''Segment''\<rparr>"

definition sales_artifact :: artifact where
  "sales_artifact =
     \<lparr>model_predict = (\<lambda>X. Inr (map (\<lambda>i. Num (of_nat i)) [0..<nrows X])),
      drop_cols = [''Row ID''],
      target_col = ''Sales''\<rparr>"

definition one_label_artifact :: artifact where
  "one_label_artifact =
     \<lparr>model_predict = (\<lambda>X. Inr [Str ''Consumer'']),
      drop_cols = [''Row ID'', ''Segment''],
      target_col = ''Segment''\<rparr>"

text \<open>A table that already has a column \<open>Predicted Segment\<close>, and a table with a header only.\<close>

definition already_predicted :: dataframe where
  "already_predicted = \<lparr>nrows = 1, cols =
     [(''Order Date'', [Str ''2023-01-05'']),
      (''Ship Date'', [Str ''2023-01-10'']),
      (''Predicted Segment'', [Str ''Corporate''])]\<rparr>"

definition header_only :: dataframe where
  "header_only = \<lparr>nrows = 0, cols = [(''Order Date'', []), (''Ship Date'', [])]\<rparr>"





section \<open>Basic facts about frames\<close>

lemmas frame_defs = columns_def frame_copy_def on_ok_def getitem_def set_column_def
  setitem_series_def wf_frame_def

lemmas series_defs = to_datetime_def tz_aware_def has_naive_def dt_year_def dt_month_def
  sub_series_def dt_days_def isna_any_def series_median_def median_def fillna_def

lemmas afe_defs = add_feature_engineering_def needed_cols_def missing_cols_def

lemmas predict_defs = prediction_run_def predict_segment_def predict_sales_def predicted_label_def
  prepare_features_def drop_column_def setitem_values_def reindex_rows_def


lemma nrows_set_column: "nrows (set_column df key v) = nrows df"
  by (simp add: set_column_def)

lemma in_columns_iff: "key \<in> set (columns df) \<longleftrightarrow> (\<exists>v. getitem df key = Inr v)"
proof -
  have "key \<in> fst ` set (cols df) \<longleftrightarrow> map_of (cols df) key \<noteq> None"
    by (simp add: map_of_eq_None_iff)
  then show ?thesis
    by (auto simp: getitem_def columns_def split: option.splits)
qed

lemma map_of_replace_same:
  "key \<in> fst ` set ps \<Longrightarrow> map_of (map (\<lambda>c. if fst c = key then (key, v) else c) ps) key = Some v"
  by (induction ps) auto

lemma map_of_replace_other:
  "k \<noteq> key \<Longrightarrow> map_of (map (\<lambda>c. if fst c = key then (key, v) else c) ps) k = map_of ps k"
  by (induction ps) auto

lemma getitem_set_column_same: "getitem (set_column df key v) key = Inr v"
proof (cases "key \<in> set (columns df)")
  case True
  then show ?thesis
    by (simp add: getitem_def set_column_def columns_def map_of_replace_same)
next
  case False
  then have "map_of (cols df) key = None"
    by (simp add: columns_def map_of_eq_None_iff)
  with False show ?thesis
    by (simp add: getitem_def set_column_def map_add_def)
qed

lemma getitem_set_column_other: "k \<noteq> key \<Longrightarrow> getitem (set_column df key v) k = getitem df k"
  by (simp add: getitem_def set_column_def map_of_replace_other map_add_def split: option.splits)

lemma fst_replace:
  "fst \<circ> (\<lambda>c. if fst c = key then (key, v) else c) = fst"
  "(\<lambda>c. fst (if fst c = key then (key, v) else c)) = fst"
  by (auto simp: fun_eq_iff)

lemma replace_replace:
  "map (\<lambda>c. if fst c = key then (key, w) else c) (map (\<lambda>c. if fst c = key then (key, v) else c) ps)
     = map (\<lambda>c. if fst c = key then (key, w) else c) ps"
  by (induction ps) auto

lemma replace_absent: "key \<notin> fst ` set ps \<Longrightarrow> map (\<lambda>c. if fst c = key then (key, v) else c) ps = ps"
  by (induction ps) auto

lemma set_column_twice: "set_column (set_column df key v) key w = set_column df key w"
proof (cases "key \<in> set (columns df)")
  case True
  then show ?thesis
    by (simp add: set_column_def columns_def fst_replace replace_replace)
next
  case False
  then show ?thesis
    by (simp add: set_column_def columns_def replace_absent)
qed

lemma wf_getitem_length: "wf_frame df \<Longrightarrow> getitem df key = Inr v \<Longrightarrow> length v = nrows df"
proof -
  assume wf: "wf_frame df" and g: "getitem df key = Inr v"
  from g have "map_of (cols df) key = Some v"
    by (simp add: getitem_def split: option.splits)
  then have "(key, v) \<in> set (cols df)"
    by (rule map_of_SomeD)
  with wf show ?thesis
    by (auto simp: wf_frame_def list_all_iff)
qed



lemma afe_error:
  assumes "\<not> set needed_cols \<subseteq> set (columns df)"
  shows "add_feature_engineering parse sw df =
           Inl (ValueError (''Kolom wajib tidak ada: '' @ join '', '' (missing_cols sw df)))"
  using assms by (simp add: add_feature_engineering_def frame_copy_def)

text \<open>
  With both date columns present, enrichment is three fallible steps (reading the two
  columns as dates, subtracting them) around assignments that cannot fail.
\<close>

lemma afe_steps:
  assumes od: "getitem df ''Order Date'' = Inr od" and sd: "getitem df ''Ship Date'' = Inr sd"
  shows "add_feature_engineering parse sw df =
           on_ok (to_datetime parse od) (\<lambda>od_dt.
           on_ok (to_datetime parse sd) (\<lambda>sd_dt.
           on_ok (sub_series sd_dt od_dt) (\<lambda>delta.
             Inr (set_column (set_column (set_column (set_column (set_column df
                  ''Order Date'' od_dt)
                  ''Ship Date'' sd_dt)
                  ''OrderYear'' (dt_year od_dt))
                  ''OrderMonth'' (dt_month od_dt))
                  ''ShipDays'' (if NA \<in> set (dt_days delta)
                                then fillna (dt_days delta) (series_median (dt_days delta))
                                else dt_days delta)))))"
proof -
  have "''Order Date'' \<in> set (columns df)" "''Ship Date'' \<in> set (columns df)"
    using od sd by (auto simp: in_columns_iff)
  then have sub: "set needed_cols \<subseteq> set (columns df)"
    by (simp add: needed_cols_def)
  show ?thesis
    unfolding add_feature_engineering_def frame_copy_def setitem_series_def
    using sub
    by (simp add: Let_def on_ok_def od sd isna_any_def set_column_twice
        getitem_set_column_same getitem_set_column_other split: sum.splits)
qed

lemma afe_result:
  assumes od: "getitem df ''Order Date'' = Inr od" and sd: "getitem df ''Ship Date'' = Inr sd"
    and od_dt: "to_datetime parse od = Inr od_dt" and sd_dt: "to_datetime parse sd = Inr sd_dt"
    and delta: "sub_series sd_dt od_dt = Inr delta"
  shows "add_feature_engineering parse sw df =
           Inr (set_column (set_column (set_column (set_column (set_column df
                  ''Order Date'' od_dt)
                  ''Ship Date'' sd_dt)
                  ''OrderYear'' (dt_year od_dt))
                  ''OrderMonth'' (dt_month od_dt))
                  ''ShipDays'' (if NA \<in> set (dt_days delta)
                                then fillna (dt_days delta) (series_median (dt_days delta))
                                else dt_days delta))"
  by (simp add: afe_steps[OF od sd] on_ok_def od_dt sd_dt delta)

lemma afe_InrD:
  assumes "add_feature_engineering parse sw df = Inr out"
  shows "\<exists>od sd od_dt sd_dt delta.
           getitem df ''Order Date'' = Inr od \<and> getitem df ''Ship Date'' = Inr sd
         \<and> to_datetime parse od = Inr od_dt \<and> to_datetime parse sd = Inr sd_dt
         \<and> sub_series sd_dt od_dt = Inr delta"
proof -
  have "set needed_cols \<subseteq> set (columns df)"
    using assms afe_error[of df parse sw] by (cases "set needed_cols \<subseteq> set (columns df)") auto
  then obtain od sd
    where od: "getitem df ''Order Date'' = Inr od" and sd: "getitem df ''Ship Date'' = Inr sd"
    by (auto simp: needed_cols_def in_columns_iff)
  note steps = afe_steps[OF od sd, of parse sw]
  obtain od_dt where od_dt: "to_datetime parse od = Inr od_dt"
    using assms steps by (cases "to_datetime parse od") (simp_all add: on_ok_def)
  obtain sd_dt where sd_dt: "to_datetime parse sd = Inr sd_dt"
    using assms steps od_dt by (cases "to_datetime parse sd") (simp_all add: on_ok_def)
  obtain delta where delta: "sub_series sd_dt od_dt = Inr delta"
    using assms steps od_dt sd_dt by (cases "sub_series sd_dt od_dt") (simp_all add: on_ok_def)
  from od sd od_dt sd_dt delta show ?thesis
    by blast
qed

lemma length_to_datetime: "to_datetime parse xs = Inr ys \<Longrightarrow> length ys = length xs"
  by (auto simp: to_datetime_def on_ok_def Let_def split: sum.splits if_splits)



lemma length_sub_series: "sub_series xs ys = Inr delta \<Longrightarrow> length delta = min (length xs) (length ys)"
  by (auto simp: sub_series_def split: if_splits)

lemma length_dt_days: "length (dt_days ds) = length ds"
  by (simp add: dt_days_def)


lemma length_fillna: "length (fillna s v) = length s"
  by (simp add: fillna_def)

lemma dt_days_cells: "c \<in> set (dt_days ds) \<Longrightarrow> c = NA \<or> (\<exists>v. c = Num v)"
  by (auto simp: dt_days_def split: option.splits)

lemma dropna_nonempty: "Num v \<in> set s \<Longrightarrow> dropna s \<noteq> []"
  by (induction s rule: dropna.induct) auto

lemma dropna_all_missing: "set s \<subseteq> {NA} \<Longrightarrow> dropna s = []"
  by (induction s rule: dropna.induct) auto

lemma dropna_filter:
  "\<forall>c\<in>set s. c = NA \<or> (\<exists>v. c = Num v) \<Longrightarrow> map Num (dropna s) = filter (\<lambda>c. c \<noteq> NA) s"
  by (induction s rule: dropna.induct) auto

lemma sort_eq_Nil_iff: "sort xs = [] \<longleftrightarrow> xs = []"
  by (metis length_0_conv length_sort)

lemma median_nonempty:
  "xs \<noteq> [] \<Longrightarrow>
     median xs = Some (if odd (length xs) then sort xs ! (length xs div 2)
                       else (sort xs ! (length xs div 2 - 1) + sort xs ! (length xs div 2)) / 2)"
  by (simp add: median_def Let_def sort_eq_Nil_iff)

lemma fillna_missing: "fillna s NA = s"
  by (simp add: fillna_def map_idI)

lemma afe_ship_days:
  assumes od: "getitem df ''Order Date'' = Inr od" and sd: "getitem df ''Ship Date'' = Inr sd"
    and od_dt: "to_datetime parse od = Inr od_dt" and sd_dt: "to_datetime parse sd = Inr sd_dt"
    and delta: "sub_series sd_dt od_dt = Inr delta"
    and s: "s = dt_days delta"
  shows "\<exists>out. add_feature_engineering parse sw df = Inr out
           \<and> getitem out ''ShipDays'' = Inr (if NA \<in> set s then fillna s (series_median s) else s)"
  by (simp add: afe_result[OF od sd od_dt sd_dt delta] getitem_set_column_same s)

lemma ship_days_length:
  assumes wf: "wf_frame df"
    and od: "getitem df ''Order Date'' = Inr od" and sd: "getitem df ''Ship Date'' = Inr sd"
    and od_dt: "to_datetime parse od = Inr od_dt" and sd_dt: "to_datetime parse sd = Inr sd_dt"
    and delta: "sub_series sd_dt od_dt = Inr delta"
  shows "length (dt_days delta) = nrows df"
  using wf_getitem_length[OF wf od] wf_getitem_length[OF wf sd]
    length_to_datetime[OF od_dt] length_to_datetime[OF sd_dt] length_sub_series[OF delta]
  by (simp add: length_dt_days)

section \<open>Feature engineering: the claims\<close>




text \<open>
  Claim C2. When some but not all of the derived \<open>ShipDays\<close> are missing, each missing
  one is replaced by the median of the non-missing ones of the same table, and the others
  stay as derived. \<open>s\<close> is the column that line 41 derives, one cell per row; \<open>vs\<close> are
  its non-missing values, in their order; the median \<open>m\<close> is the middle one of the sorted
  values, the mean of the two middle ones when their number is even. A row whose
  \<open>ShipDays\<close> is missing does not count in the median, so for the only such row the
  median is that of all other rows.
\<close>

theorem shipdays_median_imputation:
  assumes wf: "wf_frame df"
    and od: "getitem df ''Order Date'' = Inr od" and sd: "getitem df ''Ship Date'' = Inr sd"
    and od_dt: "to_datetime parse od = Inr od_dt" and sd_dt: "to_datetime parse sd = Inr sd_dt"
    and delta: "sub_series sd_dt od_dt = Inr delta"
    and s: "s = dt_days delta"
    and some: "NA \<in> set s" and not_all: "\<exists>c\<in>set s. c \<noteq> NA"
  shows "\<exists>out vs m. add_feature_engineering parse sw df = Inr out
           \<and> length s = nrows df
           \<and> map Num vs = filter (\<lambda>c. c \<noteq> NA) s
           \<and> m = (if odd (length vs) then sort vs ! (length vs div 2)
                   else (sort vs ! (length vs div 2 - 1) + sort vs ! (length vs div 2)) / 2)
           \<and> getitem out ''ShipDays'' = Inr (map (\<lambda>c. if c = NA then Num m else c) s)"
proof -
  define vs where "vs = dropna s"
  define m where "m = (if odd (length vs) then sort vs ! (length vs div 2)
                   else (sort vs ! (length vs div 2 - 1) + sort vs ! (length vs div 2)) / 2)"
  have cells: "\<forall>c\<in>set s. c = NA \<or> (\<exists>v. c = Num v)"
    using dt_days_cells by (auto simp: s)
  then have vals: "map Num vs = filter (\<lambda>c. c \<noteq> NA) s"
    unfolding vs_def by (rule dropna_filter)
  from not_all cells obtain v where "Num v \<in> set s"
    by blast
  then have "vs \<noteq> []"
    unfolding vs_def by (rule dropna_nonempty)
  then have med: "series_median s = Num m"
    by (simp add: series_median_def median_nonempty vs_def[symmetric] m_def)
  have len: "length s = nrows df"
    using ship_days_length[OF wf od sd od_dt sd_dt delta] by (simp add: s)
  from afe_ship_days[OF od sd od_dt sd_dt delta s, of sw] obtain out where
    "add_feature_engineering parse sw df = Inr out"
    "getitem out ''ShipDays'' = Inr (if NA \<in> set s then fillna s (series_median s) else s)"
    by blast
  with some med have "add_feature_engineering parse sw df = Inr out"
    "getitem out ''ShipDays'' = Inr (map (\<lambda>c. if c = NA then Num m else c) s)"
    by (simp_all add: fillna_def)
  with len vals m_def show ?thesis
    by blast
qed

theorem shipdays_median_imputation_witness:
  "wf_frame five_orders
   \<and> getitem five_orders ''Order Date'' = Inr [Str ''2023-01-05'', Str ''2023-02-01'', Str ''2023-03-15'', Str ''2023-01-05'', Str ''2023-02-01'']
   \<and> getitem five_orders ''Ship Date'' = Inr [Str ''2023-01-10'', Str ''2023-02-03'', Str ''pending'', Str ''2023-02-04'', Str ''2023-02-04'']
   \<and> (\<exists>out. add_feature_engineering demo_parse False five_orders = Inr out
          \<and> getitem out ''ShipDays'' = Inr [Num 5, Num 2, Num 4, Num 30, Num 3])
   \<and> wf_frame four_orders
   \<and> getitem four_orders ''Order Date'' = Inr [Str ''2023-01-05'', Str ''2023-02-01'', Str ''2023-03-15'', Str ''2023-01-05'']
   \<and> getitem four_orders ''Ship Date'' = Inr [Str ''2023-01-10'', Str ''2023-02-03'', Str ''pending'', Str ''2023-02-04'']
   \<and> (\<exists>out. add_feature_engineering demo_parse False four_orders = Inr out
          \<and> getitem out ''ShipDays'' = Inr [Num 5, Num 2, Num 5, Num 30])"
proof -
  have wf5: "wf_frame five_orders"
    by (simp add: five_orders_def wf_frame_def)
  have od5: "getitem five_orders ''Order Date'' = Inr [Str ''2023-01-05'', Str ''2023-02-01'', Str ''2023-03-15'', Str ''2023-01-05'', Str ''2023-02-01'']"
    and sd5: "getitem five_orders ''Ship Date'' = Inr [Str ''2023-01-10'', Str ''2023-02-03'', Str ''pending'', Str ''2023-02-04'', Str ''2023-02-04'']"
    by (simp_all add: five_orders_def getitem_def)
  have od_dt5: "to_datetime demo_parse [Str ''2023-01-05'', Str ''2023-02-01'', Str ''2023-03-15'', Str ''2023-01-05'', Str ''2023-02-01''] =
      Inr [TS \<lparr>ts_year = 2023, ts_month = 1, ts_ns = 1672876800000000000, ts_aware = False\<rparr>,
          TS \<lparr>ts_year = 2023, ts_month = 2, ts_ns = 1675209600000000000, ts_aware = False\<rparr>,
          TS \<lparr>ts_year = 2023, ts_month = 3, ts_ns = 1678838400000000000, ts_aware = False\<rparr>,
          TS \<lparr>ts_year = 2023, ts_month = 1, ts_ns = 1672876800000000000, ts_aware = False\<rparr>,
          TS \<lparr>ts_year = 2023, ts_month = 2, ts_ns = 1675209600000000000, ts_aware = False\<rparr>]"
    by (simp add: demo_parse_def to_datetime_def on_ok_def tz_aware_def has_naive_def)
  have sd_dt5: "to_datetime demo_parse [Str ''2023-01-10'', Str ''2023-02-03'', Str ''pending'', Str ''2023-02-04'', Str ''2023-02-04''] =
      Inr [TS \<lparr>ts_year = 2023, ts_month = 1, ts_ns = 1673308800000000000, ts_aware = False\<rparr>,
          TS \<lparr>ts_year = 2023, ts_month = 2, ts_ns = 1675382400000000000, ts_aware = False\<rparr>,
          NA,
          TS \<lparr>ts_year = 2023, ts_month = 2, ts_ns = 1675468800000000000, ts_aware = False\<rparr>,
          TS \<lparr>ts_year = 2023, ts_month = 2, ts_ns = 1675468800000000000, ts_aware = False\<rparr>]"
    by (simp add: demo_parse_def to_datetime_def on_ok_def tz_aware_def has_naive_def)
  obtain delta5 where delta5: "sub_series
         [TS \<lparr>ts_year = 2023, ts_month = 1, ts_ns = 1673308800000000000, ts_aware = False\<rparr>,
          TS \<lparr>ts_year = 2023, ts_month = 2, ts_ns = 1675382400000000000, ts_aware = False\<rparr>,
          NA,
          TS \<lparr>ts_year = 2023, ts_month = 2, ts_ns = 1675468800000000000, ts_aware = False\<rparr>,
          TS \<lparr>ts_year = 2023, ts_month = 2, ts_ns = 1675468800000000000, ts_aware = False\<rparr>]
         [TS \<lparr>ts_year = 2023, ts_month = 1, ts_ns = 1672876800000000000, ts_aware = False\<rparr>,
          TS \<lparr>ts_year = 2023, ts_month = 2, ts_ns = 1675209600000000000, ts_aware = False\<rparr>,
          TS \<lparr>ts_year = 2023, ts_month = 3, ts_ns = 1678838400000000000, ts_aware = False\<rparr>,
          TS \<lparr>ts_year = 2023, ts_month = 1, ts_ns = 1672876800000000000, ts_aware = False\<rparr>,
          TS \<lparr>ts_year = 2023, ts_month = 2, ts_ns = 1675209600000000000, ts_aware = False\<rparr>] = Inr delta5"
    and s5: "[Num 5, Num 2, NA, Num 30, Num 3] = dt_days delta5"
    by (simp add: sub_series_def tz_aware_def dt_days_def)
  have "\<exists>out vs m. add_feature_engineering demo_parse False five_orders = Inr out
           \<and> length [Num 5, Num 2, NA, Num 30, Num 3] = nrows five_orders
           \<and> map Num vs = filter (\<lambda>c. c \<noteq> NA) [Num 5, Num 2, NA, Num 30, Num 3]
           \<and> m = (if odd (length vs) then sort vs ! (length vs div 2)
                   else (sort vs ! (length vs div 2 - 1) + sort vs ! (length vs div 2)) / 2)
           \<and> getitem out ''ShipDays'' = Inr (map (\<lambda>c. if c = NA then Num m else c) [Num 5, Num 2, NA, Num 30, Num 3])"
    by (rule shipdays_median_imputation[OF wf5 od5 sd5 od_dt5 sd_dt5 delta5 s5]) simp_all
  then have run5: "\<exists>out. add_feature_engineering demo_parse False five_orders = Inr out
          \<and> getitem out ''ShipDays'' = Inr [Num 5, Num 2, Num 4, Num 30, Num 3]"
  proof (elim exE conjE)
    fix out vs m
    assume a: "add_feature_engineering demo_parse False five_orders = Inr out"
      and v: "map Num vs = filter (\<lambda>c. c \<noteq> NA) [Num 5, Num 2, NA, Num 30, Num 3]"
      and m: "m = (if odd (length vs) then sort vs ! (length vs div 2)
                   else (sort vs ! (length vs div 2 - 1) + sort vs ! (length vs div 2)) / 2)"
      and g: "getitem out ''ShipDays'' = Inr (map (\<lambda>c. if c = NA then Num m else c) [Num 5, Num 2, NA, Num 30, Num 3])"
    from v have "vs = [5, 2, 30, 3]"
      by (auto simp: map_eq_Cons_conv)
    with m have "m = 4"
      by simp
    with g have "getitem out ''ShipDays'' = Inr [Num 5, Num 2, Num 4, Num 30, Num 3]"
      by simp
    with a show ?thesis
      by (intro exI conjI)
  qed
  have wf4: "wf_frame four_orders"
    by (simp add: four_orders_def wf_frame_def)
  have od4: "getitem four_orders ''Order Date'' = Inr [Str ''2023-01-05'', Str ''2023-02-01'', Str ''2023-03-15'', Str ''2023-01-05'']"
    and sd4: "getitem four_orders ''Ship Date'' = Inr [Str ''2023-01-10'', Str ''2023-02-03'', Str ''pending'', Str ''2023-02-04'']"
    by (simp_all add: four_orders_def getitem_def)
  have od_dt4: "to_datetime demo_parse [Str ''2023-01-05'', Str ''2023-02-01'', Str ''2023-03-15'', Str ''2023-01-05''] =
      Inr [TS \<lparr>ts_year = 2023, ts_month = 1, ts_ns = 1672876800000000000, ts_aware = False\<rparr>,
          TS \<lparr>ts_year = 2023, ts_month = 2, ts_ns = 1675209600000000000, ts_aware = False\<rparr>,
          TS \<lparr>ts_year = 2023, ts_month = 3, ts_ns = 1678838400000000000, ts_aware = False\<rparr>,
          TS \<lparr>ts_year = 2023, ts_month = 1, ts_ns = 1672876800000000000, ts_aware = False\<rparr>]"
    by (simp add: demo_parse_def to_datetime_def on_ok_def tz_aware_def has_naive_def)
  have sd_dt4: "to_datetime demo_parse [Str ''2023-01-10'', Str ''2023-02-03'', Str ''pending'', Str ''2023-02-04''] =
      Inr [TS \<lparr>ts_year = 2023, ts_month = 1, ts_ns = 1673308800000000000, ts_aware = False\<rparr>,
          TS \<lparr>ts_year = 2023, ts_month = 2, ts_ns = 1675382400000000000, ts_aware = False\<rparr>,
          NA,
          TS \<lparr>ts_year = 2023, ts_month = 2, ts_ns = 1675468800000000000, ts_aware = False\<rparr>]"
    by (simp add: demo_parse_def to_datetime_def on_ok_def tz_aware_def has_naive_def)
  obtain delta4 where delta4: "sub_series
         [TS \<lparr>ts_year = 2023, ts_month = 1, ts_ns = 1673308800000000000, ts_aware = False\<rparr>,
          TS \<lparr>ts_year = 2023, ts_month = 2, ts_ns = 1675382400000000000, ts_aware = False\<rparr>,
          NA,
          TS \<lparr>ts_year = 2023, ts_month = 2, ts_ns = 1675468800000000000, ts_aware = False\<rparr>]
         [TS \<lparr>ts_year = 2023, ts_month = 1, ts_ns = 1672876800000000000, ts_aware = False\<rparr>,
          TS \<lparr>ts_year = 2023, ts_month = 2, ts_ns = 1675209600000000000, ts_aware = False\<rparr>,
          TS \<lparr>ts_year = 2023, ts_month = 3, ts_ns = 1678838400000000000, ts_aware = False\<rparr>,
          TS \<lparr>ts_year = 2023, ts_month = 1, ts_ns = 1672876800000000000, ts_aware = False\<rparr>] = Inr delta4"
    and s4: "[Num 5, Num 2, NA, Num 30] = dt_days delta4"
    by (simp add: sub_series_def tz_aware_def dt_days_def)
  have "\<exists>out vs m. add_feature_engineering demo_parse False four_orders = Inr out
           \<and> length [Num 5, Num 2, NA, Num 30] = nrows four_orders
           \<and> map Num vs = filter (\<lambda>c. c \<noteq> NA) [Num 5, Num 2, NA, Num 30]
           \<and> m = (if odd (length vs) then sort vs ! (length vs div 2)
                   else (sort vs ! (length vs div 2 - 1) + sort vs ! (length vs div 2)) / 2)
           \<and> getitem out ''ShipDays'' = Inr (map (\<lambda>c. if c = NA then Num m else c) [Num 5, Num 2, NA, Num 30])"
    by (rule shipdays_median_imputation[OF wf4 od4 sd4 od_dt4 sd_dt4 delta4 s4]) simp_all
  then have run4: "\<exists>out. add_feature_engineering demo_parse False four_orders = Inr out
          \<and> getitem out ''ShipDays'' = Inr [Num 5, Num 2, Num 5, Num 30]"
  proof (elim exE conjE)
    fix out vs m
    assume a: "add_feature_engineering demo_parse False four_orders = Inr out"
      and v: "map Num vs = filter (\<lambda>c. c \<noteq> NA) [Num 5, Num 2, NA, Num 30]"
      and m: "m = (if odd (length vs) then sort vs ! (length vs div 2)
                   else (sort vs ! (length vs div 2 - 1) + sort vs ! (length vs div 2)) / 2)"
      and g: "getitem out ''ShipDays'' = Inr (map (\<lambda>c. if c = NA then Num m else c) [Num 5, Num 2, NA, Num 30])"
    from v have "vs = [5, 2, 30]"
      by (auto simp: map_eq_Cons_conv)
    with m have "m = 5"
      by simp
    with g have "getitem out ''ShipDays'' = Inr [Num 5, Num 2, Num 5, Num 30]"
      by simp
    with a show ?thesis
      by (intro exI conjI)
  qed
  show ?thesis
    by (intro conjI wf5 od5 sd5 run5 wf4 od4 sd4 run4)
qed

text \<open>
  Claim C3, as amended. The claim asks for a failure when every derived \<open>ShipDays\<close> is
  missing. The program has no such check: when the derivation of line 41 gives a column
  \<open>s\<close> whose cells are all missing, the median of nothing is missing, filling with it
  changes nothing, and the table is returned with every \<open>ShipDays\<close> missing.
\<close>

theorem shipdays_all_missing_returned:
  assumes wf: "wf_frame df"
    and od: "getitem df ''Order Date'' = Inr od" and sd: "getitem df ''Ship Date'' = Inr sd"
    and od_dt: "to_datetime parse od = Inr od_dt" and sd_dt: "to_datetime parse sd = Inr sd_dt"
    and delta: "sub_series sd_dt od_dt = Inr delta"
    and s: "s = dt_days delta"
    and all_missing: "set s \<subseteq> {NA}"
  shows "\<exists>out. add_feature_engineering parse sw df = Inr out
           \<and> getitem out ''ShipDays'' = Inr (replicate (nrows df) NA)"
proof -
  have len: "length s = nrows df"
    using ship_days_length[OF wf od sd od_dt sd_dt delta] by (simp add: s)
  have "s = replicate (length s) NA"
    by (rule replicate_eqI) (use all_missing in auto)
  with len have rep: "s = replicate (nrows df) NA"
    by simp
  have "series_median s = NA"
    by (simp add: series_median_def dropna_all_missing[OF all_missing] median_def)
  then have "(if NA \<in> set s then fillna s (series_median s) else s) = s"
    by (simp add: fillna_missing)
  with afe_ship_days[OF od sd od_dt sd_dt delta s, of sw] rep show ?thesis
    by auto
qed

theorem shipdays_all_missing_returned_witness:
  "wf_frame no_ship_dates
   \<and> getitem no_ship_dates ''Order Date'' = Inr [Str ''2023-01-05'', Str ''2023-02-01'']
   \<and> getitem no_ship_dates ''Ship Date'' = Inr [NA, NA]
   \<and> to_datetime demo_parse [Str ''2023-01-05'', Str ''2023-02-01''] =
        Inr [TS \<lparr>ts_year = 2023, ts_month = 1, ts_ns = 1672876800000000000, ts_aware = False\<rparr>,
             TS \<lparr>ts_year = 2023, ts_month = 2, ts_ns = 1675209600000000000, ts_aware = False\<rparr>]
   \<and> to_datetime demo_parse [NA, NA] = Inr [NA, NA]
   \<and> sub_series [NA, NA]
        [TS \<lparr>ts_year = 2023, ts_month = 1, ts_ns = 1672876800000000000, ts_aware = False\<rparr>,
         TS \<lparr>ts_year = 2023, ts_month = 2, ts_ns = 1675209600000000000, ts_aware = False\<rparr>]
       = Inr [None, None]
   \<and> dt_days [None, None] = [NA, NA]
   \<and> (\<exists>out. add_feature_engineering demo_parse False no_ship_dates = Inr out
          \<and> getitem out ''ShipDays'' = Inr [NA, NA])"
proof -
  have wf: "wf_frame no_ship_dates"
    by (simp add: no_ship_dates_def wf_frame_def)
  have od: "getitem no_ship_dates ''Order Date'' = Inr [Str ''2023-01-05'', Str ''2023-02-01'']"
    and sd: "getitem no_ship_dates ''Ship Date'' = Inr [NA, NA]"
    by (simp_all add: no_ship_dates_def getitem_def)
  have od_dt: "to_datetime demo_parse [Str ''2023-01-05'', Str ''2023-02-01''] =
        Inr [TS \<lparr>ts_year = 2023, ts_month = 1, ts_ns = 1672876800000000000, ts_aware = False\<rparr>,
             TS \<lparr>ts_year = 2023, ts_month = 2, ts_ns = 1675209600000000000, ts_aware = False\<rparr>]"
    by (simp add: demo_parse_def to_datetime_def on_ok_def tz_aware_def has_naive_def)
  have sd_dt: "to_datetime demo_parse [NA, NA] = Inr [NA, NA]"
    by (simp add: demo_parse_def to_datetime_def on_ok_def tz_aware_def has_naive_def)
  have delta: "sub_series [NA, NA]
        [TS \<lparr>ts_year = 2023, ts_month = 1, ts_ns = 1672876800000000000, ts_aware = False\<rparr>,
         TS \<lparr>ts_year = 2023, ts_month = 2, ts_ns = 1675209600000000000, ts_aware = False\<rparr>]
       = Inr [None, None]"
    by (simp add: sub_series_def tz_aware_def)
  have s: "[NA, NA] = dt_days [None, None]"
    by (simp add: dt_days_def)
  have n: "replicate (nrows no_ship_dates) NA = [NA, NA]"
    by (simp add: no_ship_dates_def numeral_2_eq_2)
  have "\<exists>out. add_feature_engineering demo_parse False no_ship_dates = Inr out
          \<and> getitem out ''ShipDays'' = Inr (replicate (nrows no_ship_dates) NA)"
    by (rule shipdays_all_missing_returned[OF wf od sd od_dt sd_dt delta s]) simp
  then have run: "\<exists>out. add_feature_engineering demo_parse False no_ship_dates = Inr out
          \<and> getitem out ''ShipDays'' = Inr [NA, NA]"
    by (simp only: n)
  show ?thesis
    by (intro conjI wf od sd od_dt sd_dt delta s[symmetric] run)
qed

text \<open>
  The claim as stated fails: neither order has a ship date, and enrichment returns a
  table, its \<open>ShipDays\<close> all missing, not an error.
\<close>

theorem all_missing_shipdays_no_error:
  "add_feature_engineering demo_parse False no_ship_dates =
       Inr \<lparr>nrows = 2, cols =
         [(''Order Date'',
             [TS \<lparr>ts_year = 2023, ts_month = 1, ts_ns = 1672876800000000000, ts_aware = False\<rparr>,
              TS \<lparr>ts_year = 2023, ts_month = 2, ts_ns = 1675209600000000000, ts_aware = False\<rparr>]),
          (''Ship Date'', [NA, NA]),
          (''OrderYear'', [Num 2023, Num 2023]),
          (''OrderMonth'', [Num 1, Num 2]),
          (''ShipDays'', [NA, NA])]\<rparr>"
  by (simp add: no_ship_dates_def demo_parse_def afe_defs frame_defs series_defs)

text \<open>
  Claim C7. A table that lacks \<open>Order Date\<close> or \<open>Ship Date\<close> makes enrichment raise
  (line 34) before anything is computed, so no table is returned. The exception is a
  \<^verbatim>\<open>ValueError\<close>, the program's schema error; its message is the fixed prefix followed by
  the missing label, or by both labels with a comma and a blank between them when both
  columns are missing (in the order in which Python walks the set of the two).
\<close>

theorem missing_date_column_raises:
  assumes "''Order Date'' \<notin> set (columns df) \<or> ''Ship Date'' \<notin> set (columns df)"
  shows "add_feature_engineering parse sw df =
           Inl (ValueError
             (if ''Order Date'' \<in> set (columns df) then ''Kolom wajib tidak ada: Ship Date''
              else if ''Ship Date'' \<in> set (columns df) then ''Kolom wajib tidak ada: Order Date''
              else if sw then ''Kolom wajib tidak ada: Ship Date, Order Date''
              else ''Kolom wajib tidak ada: Order Date, Ship Date''))"
proof -
  from assms have not_sub: "\<not> set needed_cols \<subseteq> set (columns df)"
    by (auto simp: needed_cols_def)
  show ?thesis
  proof (cases "''Order Date'' \<in> set (columns df)")
    case True
    with assms have "''Ship Date'' \<notin> set (columns df)"
      by simp
    with True show ?thesis
      by (simp add: afe_error[OF not_sub] missing_cols_def needed_cols_def)
  next
    case False
    then show ?thesis
      by (cases "''Ship Date'' \<in> set (columns df)")
         (simp_all add: afe_error[OF not_sub] missing_cols_def needed_cols_def)
  qed
qed

theorem missing_date_column_raises_witness:
  "''Order Date'' \<in> set (columns no_ship_column)
   \<and> ''Ship Date'' \<notin> set (columns no_ship_column)
   \<and> add_feature_engineering demo_parse False no_ship_column =
        Inl (ValueError ''Kolom wajib tidak ada: Ship Date'')
   \<and> ''Order Date'' \<notin> set (columns no_date_columns)
   \<and> ''Ship Date'' \<notin> set (columns no_date_columns)
   \<and> add_feature_engineering demo_parse False no_date_columns =
        Inl (ValueError ''Kolom wajib tidak ada: Order Date, Ship Date'')
   \<and> add_feature_engineering demo_parse True no_date_columns =
        Inl (ValueError ''Kolom wajib tidak ada: Ship Date, Order Date'')"
proof -
  have present: "''Order Date'' \<in> set (columns no_ship_column)"
    and absent: "''Ship Date'' \<notin> set (columns no_ship_column)"
    by (simp_all add: no_ship_column_def columns_def)
  have neither: "''Order Date'' \<notin> set (columns no_date_columns)"
    "''Ship Date'' \<notin> set (columns no_date_columns)"
    by (simp_all add: no_date_columns_def columns_def)
  have one: "add_feature_engineering demo_parse False no_ship_column =
        Inl (ValueError ''Kolom wajib tidak ada: Ship Date'')"
    using missing_date_column_raises[OF disjI2, OF absent, of demo_parse False] present
    by (simp only: if_True)
  have two: "add_feature_engineering demo_parse False no_date_columns =
        Inl (ValueError ''Kolom wajib tidak ada: Order Date, Ship Date'')"
    using missing_date_column_raises[OF disjI1, OF neither(1), of demo_parse False] neither
    by (simp only: if_False)
  have two': "add_feature_engineering demo_parse True no_date_columns =
        Inl (ValueError ''Kolom wajib tidak ada: Ship Date, Order Date'')"
    using missing_date_column_raises[OF disjI1, OF neither(1), of demo_parse True] neither
    by (simp only: if_False if_True)
  show ?thesis
    by (intro conjI present absent neither one two two')
qed

section \<open>Feature selection: the claims\<close>

text \<open>
  What the loop and the whole of \<^verbatim>\<open>prepare_features\<close> compute: the columns whose label
  is none of the dropped ones, in their order, and never an error.
\<close>

lemma drop_loop_filter:
  "drop_loop ds df = Inr (df\<lparr>cols := filter (\<lambda>c. fst c \<notin> set ds) (cols df)\<rparr>)"
proof (induction ds arbitrary: df)
  case Nil
  then show ?case by simp
next
  case (Cons c cs)
  show ?case
  proof (cases "c \<in> set (columns df)")
    case True
    then show ?thesis
      by (simp add: drop_column_def on_ok_def Cons.IH conj_commute)
  next
    case False
    then have "filter (\<lambda>x. fst x \<notin> set (c # cs)) (cols df) = filter (\<lambda>x. fst x \<notin> set cs) (cols df)"
      by (intro filter_cong) (auto simp: columns_def)
    with False show ?thesis
      by (simp add: Cons.IH)
  qed
qed

lemma prepare_features_filter:
  "prepare_features df ds t =
     Inr (df\<lparr>cols := filter (\<lambda>c. fst c \<notin> set ds \<and> fst c \<noteq> t) (cols df)\<rparr>)"
proof (cases "t \<in> fst ` set (filter (\<lambda>c. fst c \<notin> set ds) (cols df))")
  case True
  then show ?thesis
    by (simp add: prepare_features_def frame_copy_def drop_loop_filter on_ok_def drop_column_def
        columns_def conj_commute)
next
  case False
  then have "filter (\<lambda>c. fst c \<notin> set ds \<and> fst c \<noteq> t) (cols df) = filter (\<lambda>c. fst c \<notin> set ds) (cols df)"
    by (intro filter_cong) auto
  with False show ?thesis
    by (simp add: prepare_features_def frame_copy_def drop_loop_filter on_ok_def columns_def)
qed

text \<open>
  Claim C4. \<^verbatim>\<open>prepare_features\<close> never raises; its result is the given table without the
  columns whose label is in \<open>drop_cols\<close> or is \<open>target_col\<close>: the row count and every
  other column, with its cells and its place among the others, are as they were, and a
  label that is not a column has no effect. With no \<open>drop_cols\<close> and the target
  \<open>Segment\<close>, the columns other than \<open>Segment\<close> are what is left; on a table with unique
  labels that has the column \<open>Segment\<close>, that is one column fewer.
\<close>

theorem prepare_features_removes_named_columns:
  "prepare_features df ds t =
     Inr (df\<lparr>cols := filter (\<lambda>c. fst c \<notin> set ds \<and> fst c \<noteq> t) (cols df)\<rparr>)
   \<and> prepare_features df [] ''Segment'' =
     Inr (df\<lparr>cols := filter (\<lambda>c. fst c \<noteq> ''Segment'') (cols df)\<rparr>)
   \<and> (distinct (columns df) \<longrightarrow> ''Segment'' \<in> set (columns df) \<longrightarrow>
        (\<exists>out. prepare_features df [] ''Segment'' = Inr out
             \<and> columns out = remove1 ''Segment'' (columns df)
             \<and> length (columns out) + 1 = length (columns df)))"
proof (intro conjI impI)
  show "prepare_features df ds t =
     Inr (df\<lparr>cols := filter (\<lambda>c. fst c \<notin> set ds \<and> fst c \<noteq> t) (cols df)\<rparr>)"
    by (rule prepare_features_filter)
  show "prepare_features df [] ''Segment'' =
     Inr (df\<lparr>cols := filter (\<lambda>c. fst c \<noteq> ''Segment'') (cols df)\<rparr>)"
    by (simp add: prepare_features_filter)
next
  assume d: "distinct (columns df)" and s: "''Segment'' \<in> set (columns df)"
  define out where "out = df\<lparr>cols := filter (\<lambda>c. fst c \<noteq> ''Segment'') (cols df)\<rparr>"
  have r: "prepare_features df [] ''Segment'' = Inr out"
    by (simp add: prepare_features_filter out_def)
  have "columns out = filter (\<lambda>c. c \<noteq> ''Segment'') (columns df)"
    by (simp add: out_def columns_def filter_map comp_def)
  also have "\<dots> = removeAll ''Segment'' (columns df)"
    by (simp add: removeAll_filter_not_eq) (metis)
  also have "\<dots> = remove1 ''Segment'' (columns df)"
    using d by (simp add: distinct_remove1_removeAll)
  finally have c: "columns out = remove1 ''Segment'' (columns df)" .
  have "length (columns out) = length (columns df) - 1"
    using s by (simp add: c length_remove1)
  moreover have "0 < length (columns df)"
    using s by (rule length_pos_if_in_set)
  ultimately have "length (columns out) + 1 = length (columns df)"
    by arith
  with r c show "\<exists>out. prepare_features df [] ''Segment'' = Inr out
             \<and> columns out = remove1 ''Segment'' (columns df)
             \<and> length (columns out) + 1 = length (columns df)"
    by (intro exI[of _ out] conjI)
qed


theorem prepare_features_removes_named_columns_witness:
  "distinct (columns scenario1) \<and> ''Segment'' \<in> set (columns scenario1)
   \<and> columns scenario1 = [''Segment'', ''Order Date'', ''Ship Date'']
   \<and> remove1 ''Segment'' (columns scenario1) = [''Order Date'', ''Ship Date'']
   \<and> prepare_features scenario1 [] ''Segment'' =
       Inr \<lparr>nrows = 3, cols =
         [(''Order Date'', [Str ''2023-01-05'', Str ''2023-02-01'', Str ''2023-03-15'']),
          (''Ship Date'', [Str ''2023-01-10'', Str ''2023-02-03'', Str ''pending''])]\<rparr>
   \<and> (\<exists>out. prepare_features scenario1 [] ''Segment'' = Inr out
          \<and> columns out = remove1 ''Segment'' (columns scenario1)
          \<and> length (columns out) + 1 = length (columns scenario1))"
proof -
  have c: "columns scenario1 = [''Segment'', ''Order Date'', ''Ship Date'']"
    by (simp add: scenario1_def columns_def)
  have d: "distinct (columns scenario1)" and s: "''Segment'' \<in> set (columns scenario1)"
    and r: "remove1 ''Segment'' (columns scenario1) = [''Order Date'', ''Ship Date'']"
    by (simp_all add: c)
  have e: "prepare_features scenario1 [] ''Segment'' =
       Inr \<lparr>nrows = 3, cols =
         [(''Order Date'', [Str ''2023-01-05'', Str ''2023-02-01'', Str ''2023-03-15'']),
          (''Ship Date'', [Str ''2023-01-10'', Str ''2023-02-03'', Str ''pending''])]\<rparr>"
    by (simp add: prepare_features_def scenario1_def drop_column_def frame_defs)
  from prepare_features_removes_named_columns[of scenario1 "[]" "''Segment''"] d s
  have x: "\<exists>out. prepare_features scenario1 [] ''Segment'' = Inr out
          \<and> columns out = remove1 ''Segment'' (columns scenario1)
          \<and> length (columns out) + 1 = length (columns scenario1)"
    by (elim conjE) (erule (1) impE mp)+
  show ?thesis
    by (intro conjI d s c r e x)
qed

text \<open>
  The store-level function: run on a store that holds the argument, it returns a reference
  and a store that extends the given one; the object returned is what the function of the
  values computes.
\<close>

lemma drop_loop_st_run:
  "df < length h \<Longrightarrow>
     \<exists>r new. drop_loop_st cs df h = (Inr r, h @ new) \<and> r < length (h @ new)
            \<and> (r = df \<or> length h \<le> r) \<and> drop_loop cs (h ! df) = Inr ((h @ new) ! r)"
proof (induction cs arbitrary: df h)
  case Nil
  then show ?case
    by (intro exI[of _ df] exI[of _ "[]"]) simp
next
  case (Cons c cs)
  show ?case
  proof (cases "c \<in> set (columns (h ! df))")
    case True
    define v where "v = (h ! df)\<lparr>cols := filter (\<lambda>col. fst col \<noteq> c) (cols (h ! df))\<rparr>"
    have step: "drop_loop_st (c # cs) df h = drop_loop_st cs (length h) (h @ [v])"
      using True Cons.prems by (simp add: deref_def drop_object_def drop_column_def new_object_def v_def)
    have pure: "drop_loop (c # cs) (h ! df) = drop_loop cs v"
      using True by (simp add: drop_column_def on_ok_def v_def)
    from Cons.IH[of "length h" "h @ [v]"] obtain r new where
      r: "drop_loop_st cs (length h) (h @ [v]) = (Inr r, (h @ [v]) @ new)"
         "r < length ((h @ [v]) @ new)" "r = length h \<or> length (h @ [v]) \<le> r"
         "drop_loop cs ((h @ [v]) ! length h) = Inr (((h @ [v]) @ new) ! r)"
      by auto
    from r(3) have "length h \<le> r"
      by auto
    with r step pure show ?thesis
      by (intro exI[of _ r] exI[of _ "v # new"]) simp
  next
    case False
    with Cons.prems have step: "drop_loop_st (c # cs) df h = drop_loop_st cs df h"
      by (simp add: deref_def)
    from False have pure: "drop_loop (c # cs) (h ! df) = drop_loop cs (h ! df)"
      by simp
    from Cons.IH[OF Cons.prems] step pure show ?thesis
      by simp
  qed
qed

lemma prepare_features_st_run:
  assumes "df < length h"
  shows "\<exists>r new. prepare_features_st df ds t h = (Inr r, h @ new) \<and> r < length (h @ new)
            \<and> length h \<le> r \<and> prepare_features (h ! df) ds t = Inr ((h @ new) ! r)"
proof -
  have copy: "copy_object h df = (Inr (length h), h @ [h ! df])"
    using assms by (simp add: copy_object_def deref_def new_object_def frame_copy_def)
  from drop_loop_st_run[of "length h" "h @ [h ! df]" ds] obtain r1 new1 where
    loop1: "drop_loop_st ds (length h) (h @ [h ! df]) = (Inr r1, (h @ [h ! df]) @ new1)"
      and r1: "r1 < length ((h @ [h ! df]) @ new1)" "r1 = length h \<or> length (h @ [h ! df]) \<le> r1"
      and pure1: "drop_loop ds ((h @ [h ! df]) ! length h) = Inr (((h @ [h ! df]) @ new1) ! r1)"
    by auto
  define h2 where "h2 = h @ (h ! df) # new1"
  have loop: "drop_loop_st ds (length h) (h @ [h ! df]) = (Inr r1, h2)"
    using loop1 by (simp add: h2_def)
  have loop_pure: "drop_loop ds (frame_copy (h ! df)) = Inr (h2 ! r1)"
    using pure1 by (simp add: frame_copy_def h2_def)
  have r1_ge: "length h \<le> r1"
    using r1(2) by auto
  have r1_lt: "r1 < length h2"
    using r1(1) by (simp add: h2_def)
  have len2: "length h \<le> length h2"
    by (simp add: h2_def)
  show ?thesis
  proof (cases "t \<in> set (columns (h2 ! r1))")
    case True
    define v where "v = (h2 ! r1)\<lparr>cols := filter (\<lambda>col. fst col \<noteq> t) (cols (h2 ! r1))\<rparr>"
    have run: "prepare_features_st df ds t h = (Inr (length h2), h2 @ [v])"
      using True r1_lt
      by (simp add: prepare_features_st_def copy loop deref_def
          drop_object_def drop_column_def new_object_def v_def)
    have pure: "prepare_features (h ! df) ds t = Inr v"
      using True by (simp add: prepare_features_def loop_pure on_ok_def drop_column_def v_def)
    have eq: "h2 @ [v] = h @ ((h ! df) # new1 @ [v])"
      by (simp add: h2_def)
    have "prepare_features_st df ds t h = (Inr (length h2), h @ ((h ! df) # new1 @ [v]))"
      "length h2 < length (h @ ((h ! df) # new1 @ [v]))" "length h \<le> length h2"
      "prepare_features (h ! df) ds t = Inr ((h @ ((h ! df) # new1 @ [v])) ! length h2)"
      using run pure len2 unfolding eq[symmetric] by simp_all
    then show ?thesis
      by (intro exI[of _ "length h2"] exI[of _ "(h ! df) # new1 @ [v]"] conjI)
  next
    case False
    have run: "prepare_features_st df ds t h = (Inr r1, h2)"
      using False r1_lt
      by (simp add: prepare_features_st_def copy loop deref_def)
    have pure: "prepare_features (h ! df) ds t = Inr (h2 ! r1)"
      using False by (simp add: prepare_features_def loop_pure on_ok_def)
    have "prepare_features_st df ds t h = (Inr r1, h @ ((h ! df) # new1))"
      "r1 < length (h @ ((h ! df) # new1))" "length h \<le> r1"
      "prepare_features (h ! df) ds t = Inr ((h @ ((h ! df) # new1)) ! r1)"
      using run pure r1_lt r1_ge unfolding h2_def by simp_all
    then show ?thesis
      by (intro exI[of _ r1] exI[of _ "(h ! df) # new1"] conjI)
  qed
qed

text \<open>
  Claim C9. \<^verbatim>\<open>prepare_features\<close> is pure. Run on any store that holds the table it is
  given, it raises nothing and changes no object that existed before the call (line 49
  copies, and \<^verbatim>\<open>drop\<close> makes new objects). The table it returns is a new object whose
  value is determined by the value of the given table, the labels to drop and the target.
  So a second call with the same arguments, on the store the first call left, returns
  an equal table, and so does a call on any other store in which the given table has the
  same value, whatever else that store holds.
\<close>

theorem prepare_features_pure:
  assumes "df_enriched < length h"
  shows "\<exists>r h'. prepare_features_st df_enriched ds t h = (Inr r, h')
           \<and> take (length h) h' = h
           \<and> length h \<le> r \<and> r < length h'
           \<and> Inr (h' ! r) = prepare_features (h ! df_enriched) ds t
           \<and> (\<exists>r2 h2. prepare_features_st df_enriched ds t h' = (Inr r2, h2) \<and> h2 ! r2 = h' ! r)
           \<and> (\<forall>g. df_enriched < length g \<and> g ! df_enriched = h ! df_enriched \<longrightarrow>
                 (\<exists>r3 g'. prepare_features_st df_enriched ds t g = (Inr r3, g') \<and> g' ! r3 = h' ! r))"
proof -
  from prepare_features_st_run[OF assms, of ds t] obtain r new where
    run: "prepare_features_st df_enriched ds t h = (Inr r, h @ new)"
    and r: "r < length (h @ new)" "length h \<le> r"
    and val: "prepare_features (h ! df_enriched) ds t = Inr ((h @ new) ! r)"
    by blast
  have same: "\<exists>r3 g'. prepare_features_st df_enriched ds t g = (Inr r3, g') \<and> g' ! r3 = (h @ new) ! r"
    if g: "df_enriched < length g" "g ! df_enriched = h ! df_enriched" for g
  proof -
    from prepare_features_st_run[OF g(1), of ds t] obtain r3 new3 where
      "prepare_features_st df_enriched ds t g = (Inr r3, g @ new3)"
      "prepare_features (g ! df_enriched) ds t = Inr ((g @ new3) ! r3)"
      by blast
    with val g(2) show ?thesis
      by (intro exI[of _ r3] exI[of _ "g @ new3"]) simp
  qed
  have again: "\<exists>r2 h2. prepare_features_st df_enriched ds t (h @ new) = (Inr r2, h2)
      \<and> h2 ! r2 = (h @ new) ! r"
    using assms by (intro same) (simp_all add: nth_append)
  from run r val again same show ?thesis
    by (intro exI[of _ r] exI[of _ "h @ new"]) simp
qed

theorem prepare_features_pure_witness:
  "(0::nat) < length [scenario1]
   \<and> prepare_features_st 0 [''Row ID'', ''Segment''] ''Segment'' [scenario1] =
       (Inr 2, [scenario1, scenario1,
                \<lparr>nrows = 3, cols =
                  [(''Order Date'', [Str ''2023-01-05'', Str ''2023-02-01'', Str ''2023-03-15'']),
                   (''Ship Date'', [Str ''2023-01-10'', Str ''2023-02-03'', Str ''pending''])]\<rparr>])
   \<and> (\<exists>r h'. prepare_features_st 0 [''Row ID'', ''Segment''] ''Segment'' [scenario1] = (Inr r, h')
           \<and> take (length [scenario1]) h' = [scenario1]
           \<and> length [scenario1] \<le> r \<and> r < length h'
           \<and> Inr (h' ! r) = prepare_features ([scenario1] ! 0) [''Row ID'', ''Segment''] ''Segment''
           \<and> (\<exists>r2 h2. prepare_features_st 0 [''Row ID'', ''Segment''] ''Segment'' h' = (Inr r2, h2)
                 \<and> h2 ! r2 = h' ! r)
           \<and> (\<forall>g. 0 < length g \<and> g ! 0 = [scenario1] ! 0 \<longrightarrow>
                 (\<exists>r3 g'. prepare_features_st 0 [''Row ID'', ''Segment''] ''Segment'' g = (Inr r3, g')
                    \<and> g' ! r3 = h' ! r)))"
proof -
  have h: "(0::nat) < length [scenario1]"
    by simp
  have e: "prepare_features_st 0 [''Row ID'', ''Segment''] ''Segment'' [scenario1] =
       (Inr 2, [scenario1, scenario1,
                \<lparr>nrows = 3, cols =
                  [(''Order Date'', [Str ''2023-01-05'', Str ''2023-02-01'', Str ''2023-03-15'']),
                   (''Ship Date'', [Str ''2023-01-10'', Str ''2023-02-03'', Str ''pending''])]\<rparr>])"
    by (simp add: prepare_features_st_def copy_object_def drop_object_def deref_def new_object_def
        drop_column_def frame_copy_def columns_def scenario1_def)
  show ?thesis
    by (intro conjI h e prepare_features_pure[OF h])
qed

text \<open>
  Claim C10. When the target label is also among \<open>drop_cols\<close>, the loop has removed it
  (at its first occurrence; a later occurrence fails the membership test of line 52), the
  membership test of line 56 fails, and the result is what the loop left; nothing is
  raised.
\<close>

theorem prepare_features_target_in_drop_cols:
  assumes "t \<in> set ds"
  shows "\<exists>mid. drop_loop ds (frame_copy df) = Inr mid
           \<and> t \<notin> set (columns mid)
           \<and> prepare_features df ds t = Inr mid
           \<and> mid = df\<lparr>cols := filter (\<lambda>c. fst c \<notin> set ds) (cols df)\<rparr>"
proof -
  define mid where "mid = df\<lparr>cols := filter (\<lambda>c. fst c \<notin> set ds) (cols df)\<rparr>"
  have loop: "drop_loop ds (frame_copy df) = Inr mid"
    by (simp add: drop_loop_filter frame_copy_def mid_def)
  have absent: "t \<notin> set (columns mid)"
    using assms by (auto simp: mid_def columns_def)
  have "prepare_features df ds t = Inr mid"
    using absent loop by (simp add: prepare_features_def on_ok_def)
  with loop absent mid_def show ?thesis
    by blast
qed

theorem prepare_features_target_in_drop_cols_witness:
  "''Segment'' \<in> set [''Row ID'', ''Segment'']
   \<and> prepare_features scenario1 [''Row ID'', ''Segment''] ''Segment'' =
       Inr \<lparr>nrows = 3, cols =
         [(''Order Date'', [Str ''2023-01-05'', Str ''2023-02-01'', Str ''2023-03-15'']),
          (''Ship Date'', [Str ''2023-01-10'', Str ''2023-02-03'', Str ''pending''])]\<rparr>
   \<and> (\<exists>mid. drop_loop [''Row ID'', ''Segment''] (frame_copy scenario1) = Inr mid
           \<and> ''Segment'' \<notin> set (columns mid)
           \<and> prepare_features scenario1 [''Row ID'', ''Segment''] ''Segment'' = Inr mid
           \<and> mid = scenario1\<lparr>cols := filter (\<lambda>c. fst c \<notin> set [''Row ID'', ''Segment'']) (cols scenario1)\<rparr>)"
proof -
  have h: "''Segment'' \<in> set [''Row ID'', ''Segment'']"
    by simp
  have e: "prepare_features scenario1 [''Row ID'', ''Segment''] ''Segment'' =
       Inr \<lparr>nrows = 3, cols =
         [(''Order Date'', [Str ''2023-01-05'', Str ''2023-02-01'', Str ''2023-03-15'']),
          (''Ship Date'', [Str ''2023-01-10'', Str ''2023-02-03'', Str ''pending''])]\<rparr>"
    by (simp add: prepare_features_def scenario1_def drop_column_def frame_defs)
  show ?thesis
    by (intro conjI h e prepare_features_target_in_drop_cols[OF h])
qed

section \<open>Prediction: the claims\<close>

lemma afe_nrows:
  assumes "add_feature_engineering parse sw df = Inr out"
  shows "nrows out = nrows df"
proof -
  from afe_InrD[OF assms] obtain od sd od_dt sd_dt delta
    where "getitem df ''Order Date'' = Inr od" "getitem df ''Ship Date'' = Inr sd"
      "to_datetime parse od = Inr od_dt" "to_datetime parse sd = Inr sd_dt"
      "sub_series sd_dt od_dt = Inr delta"
    by blast
  from afe_result[OF this, of sw] assms show ?thesis
    by (auto simp: nrows_set_column)
qed

lemma prepare_features_nrows:
  assumes "prepare_features df ds t = Inr X"
  shows "nrows X = nrows df"
  using assms by (auto simp: prepare_features_filter)

lemma setitem_values_rows:
  assumes "0 < nrows df"
  shows "setitem_values df key v =
           (if length v \<noteq> nrows df
            then Inl (ValueError ''Length of values does not match length of index'')
            else Inr (set_column df key v))"
  using assms by (simp add: setitem_values_def)

lemma prediction_run_steps:
  assumes "add_feature_engineering parse sw df_raw = Inr df_enriched"
    and "prepare_features df_enriched (drop_cols art) (target_col art) = Inr X_pred"
    and "model_predict art X_pred = Inr preds"
  shows "prediction_run parse sw m art df_raw = setitem_values df_raw (predicted_label m art) preds"
  using assms
  by (cases m)
     (simp_all add: prediction_run_def predict_segment_def predict_sales_def predicted_label_def
        on_ok_def frame_copy_def)

lemma prediction_run_InrD:
  assumes "prediction_run parse sw m art df_raw = Inr out"
  shows "\<exists>df_enriched X_pred preds.
           add_feature_engineering parse sw df_raw = Inr df_enriched
         \<and> prepare_features df_enriched (drop_cols art) (target_col art) = Inr X_pred
         \<and> model_predict art X_pred = Inr preds"
proof -
  obtain df_enriched where e: "add_feature_engineering parse sw df_raw = Inr df_enriched"
    using assms by (cases "add_feature_engineering parse sw df_raw") (auto simp: prediction_run_def on_ok_def)
  obtain X_pred where x: "prepare_features df_enriched (drop_cols art) (target_col art) = Inr X_pred"
    by (simp add: prepare_features_filter)
  obtain preds where p: "model_predict art X_pred = Inr preds"
    using assms e x
    by (cases "model_predict art X_pred"; cases m)
       (auto simp: prediction_run_def predict_segment_def predict_sales_def on_ok_def)
  from e x p show ?thesis
    by blast
qed

text \<open>
  Claim C5, as amended. The prediction column is stored by \<^verbatim>\<open>out[label] = preds\<close>
  (lines 166 and 221), which appends a column only when the raw table has none of that
  label; otherwise the cells of that column are overwritten and no column is added. What
  holds: when a run succeeds on a raw table that has at least one row and no column of the
  label (\<open>Predicted Segment\<close> in the classification mode, \<open>Predicted\<close> followed by the
  target label in the regression mode), the predictor was given a table with as many rows
  as the raw table, it returned one value per row, and the output is the raw table with
  one more column, the last, of that label, holding the predictions in their order; the
  row count and the raw columns are as they were.
\<close>

theorem prediction_output_appends_column:
  assumes wf: "wf_frame df_raw" and rows: "0 < nrows df_raw"
    and fresh: "predicted_label m art \<notin> set (columns df_raw)"
    and run: "prediction_run parse sw m art df_raw = Inr out"
  shows "\<exists>df_enriched X_pred preds.
           add_feature_engineering parse sw df_raw = Inr df_enriched
         \<and> prepare_features df_enriched (drop_cols art) (target_col art) = Inr X_pred
         \<and> model_predict art X_pred = Inr preds
         \<and> nrows X_pred = nrows df_raw \<and> length preds = nrows df_raw
         \<and> out = df_raw\<lparr>cols := cols df_raw @ [(predicted_label m art, preds)]\<rparr>"
proof -
  from prediction_run_InrD[OF run] obtain df_enriched X_pred preds where
    e: "add_feature_engineering parse sw df_raw = Inr df_enriched"
    and x: "prepare_features df_enriched (drop_cols art) (target_col art) = Inr X_pred"
    and p: "model_predict art X_pred = Inr preds"
    by blast
  have n: "nrows X_pred = nrows df_raw"
    using afe_nrows[OF e] prepare_features_nrows[OF x] by simp
  from run have "setitem_values df_raw (predicted_label m art) preds = Inr out"
    by (simp add: prediction_run_steps[OF e x p])
  then have "length preds = nrows df_raw \<and> out = set_column df_raw (predicted_label m art) preds"
    by (simp add: setitem_values_rows[OF rows] split: if_splits)
  with fresh have "length preds = nrows df_raw"
    "out = df_raw\<lparr>cols := cols df_raw @ [(predicted_label m art, preds)]\<rparr>"
    by (simp_all add: set_column_def)
  with e x p n show ?thesis
    by blast
qed

theorem prediction_output_appends_column_witness:
  "wf_frame scenario1 \<and> 0 < nrows scenario1
   \<and> predicted_label Regresi_Sales sales_artifact = ''Predicted Sales''
   \<and> predicted_label Regresi_Sales sales_artifact \<notin> set (columns scenario1)
   \<and> prediction_run demo_parse False Regresi_Sales sales_artifact scenario1 =
        Inr \<lparr>nrows = 3, cols =
          [(''Segment'', [Str ''Consumer'', Str ''Corporate'', Str ''Consumer'']),
           (''Order Date'', [Str ''2023-01-05'', Str ''2023-02-01'', Str ''2023-03-15'']),
           (''Ship Date'', [Str ''2023-01-10'', Str ''2023-02-03'', Str ''pending'']),
           (''Predicted Sales'', [Num 0, Num 1, Num 2])]\<rparr>
   \<and> (\<exists>df_enriched X_pred preds.
           add_feature_engineering demo_parse False scenario1 = Inr df_enriched
         \<and> prepare_features df_enriched (drop_cols sales_artifact) (target_col sales_artifact) = Inr X_pred
         \<and> model_predict sales_artifact X_pred = Inr preds
         \<and> nrows X_pred = nrows scenario1 \<and> length preds = nrows scenario1
         \<and> \<lparr>nrows = 3, cols =
          [(''Segment'', [Str ''Consumer'', Str ''Corporate'', Str ''Consumer'']),
           (''Order Date'', [Str ''2023-01-05'', Str ''2023-02-01'', Str ''2023-03-15'']),
           (''Ship Date'', [Str ''2023-01-10'', Str ''2023-02-03'', Str ''pending'']),
           (''Predicted Sales'', [Num 0, Num 1, Num 2])]\<rparr>
            = scenario1\<lparr>cols := cols scenario1 @ [(predicted_label Regresi_Sales sales_artifact, preds)]\<rparr>)"
proof -
  have wf: "wf_frame scenario1" and rows: "0 < nrows scenario1"
    by (simp_all add: scenario1_def wf_frame_def)
  have label: "predicted_label Regresi_Sales sales_artifact = ''Predicted Sales''"
    by (simp add: predicted_label_def sales_artifact_def)
  have fresh: "predicted_label Regresi_Sales sales_artifact \<notin> set (columns scenario1)"
    by (simp add: label scenario1_def columns_def)
  have run: "prediction_run demo_parse False Regresi_Sales sales_artifact scenario1 =
        Inr \<lparr>nrows = 3, cols =
          [(''Segment'', [Str ''Consumer'', Str ''Corporate'', Str ''Consumer'']),
           (''Order Date'', [Str ''2023-01-05'', Str ''2023-02-01'', Str ''2023-03-15'']),
           (''Ship Date'', [Str ''2023-01-10'', Str ''2023-02-03'', Str ''pending'']),
           (''Predicted Sales'', [Num 0, Num 1, Num 2])]\<rparr>"
    by (simp add: scenario1_def demo_parse_def sales_artifact_def predict_defs afe_defs frame_defs series_defs
        upt_conv_Cons)
  show ?thesis
    by (intro conjI wf rows label fresh run prediction_output_appends_column[OF wf rows fresh run])
qed

text \<open>
  The claim as stated fails on a raw table that already has a column \<open>Predicted Segment\<close>
  (such as a downloaded result loaded again): the output has the three columns of the
  input, not one more, and the cell \<open>Corporate\<close> of the raw table has become \<open>Consumer\<close>.
  It also fails on a raw table without rows when the predictor returns a value: the run
  succeeds, and the raw columns, which had no cell, have a missing cell in the output.
\<close>

theorem existing_prediction_column_overwritten:
  "columns already_predicted = [''Order Date'', ''Ship Date'', ''Predicted Segment'']
   \<and> getitem already_predicted ''Predicted Segment'' = Inr [Str ''Corporate'']
   \<and> prediction_run demo_parse False Klasifikasi_Segment consumer_artifact already_predicted =
        Inr \<lparr>nrows = 1, cols =
          [(''Order Date'', [Str ''2023-01-05'']),
           (''Ship Date'', [Str ''2023-01-10'']),
           (''Predicted Segment'', [Str ''Consumer''])]\<rparr>
   \<and> header_only = \<lparr>nrows = 0, cols = [(''Order Date'', []), (''Ship Date'', [])]\<rparr>
   \<and> prediction_run demo_parse False Regresi_Sales one_label_artifact header_only =
        Inr \<lparr>nrows = 1, cols =
          [(''Order Date'', [NA]), (''Ship Date'', [NA]), (''Predicted Segment'', [Str ''Consumer''])]\<rparr>"
  by (simp add: already_predicted_def header_only_def demo_parse_def consumer_artifact_def
      one_label_artifact_def predict_defs afe_defs frame_defs series_defs)

text \<open>
  Claim C6, as amended. The program does not compare the number of predictions with the
  number of rows; the assignment of the prediction column does, and raises
  \<^verbatim>\<open>ValueError\<close>, which the \<^verbatim>\<open>except\<close> of the block reports, so no output table is made.
  That holds for a raw table with at least one row. A raw table without rows takes its
  index from a non-empty prediction instead, and an output table is made.
\<close>

theorem prediction_length_mismatch_raises:
  assumes wf: "wf_frame df_raw" and rows: "0 < nrows df_raw"
    and e: "add_feature_engineering parse sw df_raw = Inr df_enriched"
    and x: "prepare_features df_enriched (drop_cols art) (target_col art) = Inr X_pred"
    and p: "model_predict art X_pred = Inr preds"
    and mismatch: "length preds \<noteq> nrows X_pred"
  shows "nrows X_pred = nrows df_raw
       \<and> prediction_run parse sw m art df_raw =
           Inl (ValueError ''Length of values does not match length of index'')"
proof -
  have n: "nrows X_pred = nrows df_raw"
    using afe_nrows[OF e] prepare_features_nrows[OF x] by simp
  with mismatch show ?thesis
    by (simp add: prediction_run_steps[OF e x p] setitem_values_rows[OF rows])
qed

theorem prediction_length_mismatch_raises_witness:
  "wf_frame scenario1 \<and> 0 < nrows scenario1
   \<and> (\<exists>df_enriched X_pred.
         add_feature_engineering demo_parse False scenario1 = Inr df_enriched
       \<and> prepare_features df_enriched (drop_cols one_label_artifact) (target_col one_label_artifact) = Inr X_pred
       \<and> model_predict one_label_artifact X_pred = Inr [Str ''Consumer'']
       \<and> length [Str ''Consumer''] \<noteq> nrows X_pred
       \<and> nrows X_pred = nrows scenario1)
   \<and> prediction_run demo_parse False Klasifikasi_Segment one_label_artifact scenario1 =
        Inl (ValueError ''Length of values does not match length of index'')"
proof -
  have wf: "wf_frame scenario1" and rows: "0 < nrows scenario1"
    by (simp_all add: scenario1_def wf_frame_def)
  define df_enriched where "df_enriched =
     \<lparr>nrows = 3, cols =
       [(''Segment'', [Str ''Consumer'', Str ''Corporate'', Str ''Consumer'']),
        (''Order Date'', [TS \<lparr>ts_year = 2023, ts_month = 1, ts_ns = 1672876800000000000, ts_aware = False\<rparr>,
                          TS \<lparr>ts_year = 2023, ts_month = 2, ts_ns = 1675209600000000000, ts_aware = False\<rparr>,
                          TS \<lparr>ts_year = 2023, ts_month = 3, ts_ns = 1678838400000000000, ts_aware = False\<rparr>]),
        (''Ship Date'', [TS \<lparr>ts_year = 2023, ts_month = 1, ts_ns = 1673308800000000000, ts_aware = False\<rparr>,
                         TS \<lparr>ts_year = 2023, ts_month = 2, ts_ns = 1675382400000000000, ts_aware = False\<rparr>,
                         NA]),
        (''OrderYear'', [Num 2023, Num 2023, Num 2023]),
        (''OrderMonth'', [Num 1, Num 2, Num 3]),
        (''ShipDays'', [Num 5, Num 2, Num (7 / 2)])]\<rparr>"
  have e: "add_feature_engineering demo_parse False scenario1 = Inr df_enriched"
    by (simp add: df_enriched_def scenario1_def demo_parse_def afe_defs frame_defs series_defs)
  obtain X_pred where
    x: "prepare_features df_enriched (drop_cols one_label_artifact) (target_col one_label_artifact) = Inr X_pred"
    by (simp add: prepare_features_filter)
  have p: "model_predict one_label_artifact X_pred = Inr [Str ''Consumer'']"
    by (simp add: one_label_artifact_def)
  have "nrows X_pred = 3"
    using afe_nrows[OF e] prepare_features_nrows[OF x] by (simp add: scenario1_def)
  then have mismatch: "length [Str ''Consumer''] \<noteq> nrows X_pred"
    by simp
  note r = prediction_length_mismatch_raises[OF wf rows e x p mismatch, of Klasifikasi_Segment]
  from e x p mismatch r have "\<exists>df_enriched X_pred.
         add_feature_engineering demo_parse False scenario1 = Inr df_enriched
       \<and> prepare_features df_enriched (drop_cols one_label_artifact) (target_col one_label_artifact) = Inr X_pred
       \<and> model_predict one_label_artifact X_pred = Inr [Str ''Consumer'']
       \<and> length [Str ''Consumer''] \<noteq> nrows X_pred
       \<and> nrows X_pred = nrows scenario1"
    by (intro exI[of _ df_enriched] exI[of _ X_pred] conjI) simp_all
  with wf rows r show ?thesis
    by (intro conjI) simp_all
qed

text \<open>
  The claim as stated fails on a table without rows: the predictor is given no row and
  returns one value, and the run returns a table of one row.
\<close>

theorem empty_table_takes_any_predictions:
  "nrows header_only = 0
   \<and> add_feature_engineering demo_parse False header_only =
        Inr \<lparr>nrows = 0, cols =
          [(''Order Date'', []), (''Ship Date'', []),
           (''OrderYear'', []), (''OrderMonth'', []), (''ShipDays'', [])]\<rparr>
   \<and> prepare_features
        \<lparr>nrows = 0, cols =
          [(''Order Date'', []), (''Ship Date'', []),
           (''OrderYear'', []), (''OrderMonth'', []), (''ShipDays'', [])]\<rparr>
        (drop_cols one_label_artifact) (target_col one_label_artifact) =
        Inr \<lparr>nrows = 0, cols =
          [(''Order Date'', []), (''Ship Date'', []),
           (''OrderYear'', []), (''OrderMonth'', []), (''ShipDays'', [])]\<rparr>
   \<and> model_predict one_label_artifact
        \<lparr>nrows = 0, cols =
          [(''Order Date'', []), (''Ship Date'', []),
           (''OrderYear'', []), (''OrderMonth'', []), (''ShipDays'', [])]\<rparr> = Inr [Str ''Consumer'']
   \<and> prediction_run demo_parse False Klasifikasi_Segment one_label_artifact header_only =
        Inr \<lparr>nrows = 1, cols =
          [(''Order Date'', [NA]), (''Ship Date'', [NA]), (''Predicted Segment'', [Str ''Consumer''])]\<rparr>"
  by (simp add: header_only_def demo_parse_def one_label_artifact_def predict_defs afe_defs frame_defs series_defs)

section \<open>Loading: the claim\<close>




section \<open>Further properties\<close>

text \<open>
  What \<^verbatim>\<open>prepare_features\<close> hands to the predictor has neither the target column nor any
  of the columns to drop, has no column the given table lacks, and has the rows of the
  given table.
\<close>

theorem model_input_excludes_dropped:
  assumes "prepare_features df ds t = Inr X"
  shows "t \<notin> set (columns X) \<and> set (columns X) \<inter> set ds = {}
       \<and> set (columns X) \<subseteq> set (columns df) \<and> nrows X = nrows df"
  using assms by (auto simp: prepare_features_filter columns_def)

theorem model_input_excludes_dropped_witness:
  "prepare_features scenario1 [''Row ID'', ''Segment''] ''Sales'' =
       Inr \<lparr>nrows = 3, cols =
         [(''Order Date'', [Str ''2023-01-05'', Str ''2023-02-01'', Str ''2023-03-15'']),
          (''Ship Date'', [Str ''2023-01-10'', Str ''2023-02-03'', Str ''pending''])]\<rparr>
   \<and> ''Sales'' \<notin> set (columns \<lparr>nrows = 3, cols =
         [(''Order Date'', [Str ''2023-01-05'', Str ''2023-02-01'', Str ''2023-03-15'']),
          (''Ship Date'', [Str ''2023-01-10'', Str ''2023-02-03'', Str ''pending''])]\<rparr>)
   \<and> set (columns \<lparr>nrows = 3, cols =
         [(''Order Date'', [Str ''2023-01-05'', Str ''2023-02-01'', Str ''2023-03-15'']),
          (''Ship Date'', [Str ''2023-01-10'', Str ''2023-02-03'', Str ''pending''])]\<rparr>)
       \<inter> set [''Row ID'', ''Segment''] = {}"
proof -
  let ?X = "\<lparr>nrows = 3, cols =
         [(''Order Date'', [Str ''2023-01-05'', Str ''2023-02-01'', Str ''2023-03-15'']),
          (''Ship Date'', [Str ''2023-01-10'', Str ''2023-02-03'', Str ''pending''])]\<rparr>"
  have e: "prepare_features scenario1 [''Row ID'', ''Segment''] ''Sales'' = Inr ?X"
    by (simp add: prepare_features_def scenario1_def drop_column_def frame_defs)
  note r = model_input_excludes_dropped[OF e]
  show ?thesis
    by (intro conjI e r[THEN conjunct1] r[THEN conjunct2, THEN conjunct1])
qed

text \<open>
  \<^verbatim>\<open>prepare_features\<close> is idempotent: applied to its own result, with the same labels, it
  returns that result.
\<close>

theorem prepare_features_idempotent:
  assumes "prepare_features df ds t = Inr X"
  shows "prepare_features X ds t = Inr X"
  using assms by (auto simp: prepare_features_filter)

theorem prepare_features_idempotent_witness:
  "prepare_features scenario1 [''Row ID'', ''Segment''] ''Sales'' =
       Inr \<lparr>nrows = 3, cols =
         [(''Order Date'', [Str ''2023-01-05'', Str ''2023-02-01'', Str ''2023-03-15'']),
          (''Ship Date'', [Str ''2023-01-10'', Str ''2023-02-03'', Str ''pending''])]\<rparr>
   \<and> prepare_features \<lparr>nrows = 3, cols =
         [(''Order Date'', [Str ''2023-01-05'', Str ''2023-02-01'', Str ''2023-03-15'']),
          (''Ship Date'', [Str ''2023-01-10'', Str ''2023-02-03'', Str ''pending''])]\<rparr>
        [''Row ID'', ''Segment''] ''Sales'' =
       Inr \<lparr>nrows = 3, cols =
         [(''Order Date'', [Str ''2023-01-05'', Str ''2023-02-01'', Str ''2023-03-15'']),
          (''Ship Date'', [Str ''2023-01-10'', Str ''2023-02-03'', Str ''pending''])]\<rparr>"
proof -
  let ?X = "\<lparr>nrows = 3, cols =
         [(''Order Date'', [Str ''2023-01-05'', Str ''2023-02-01'', Str ''2023-03-15'']),
          (''Ship Date'', [Str ''2023-01-10'', Str ''2023-02-03'', Str ''pending''])]\<rparr>"
  have e: "prepare_features scenario1 [''Row ID'', ''Segment''] ''Sales'' = Inr ?X"
    by (simp add: prepare_features_def scenario1_def drop_column_def frame_defs)
  show ?thesis
    by (intro conjI e prepare_features_idempotent[OF e])
qed

lemma series_median_some: "Num v \<in> set s \<Longrightarrow> \<exists>m. series_median s = Num m"
  by (simp add: series_median_def median_nonempty[OF dropna_nonempty])

text \<open>
  When the subtraction of line 41 succeeds and at least one \<open>ShipDays\<close> can be derived,
  the enriched table has a \<open>ShipDays\<close> for every row: none is missing after lines 43
  and 44.
\<close>

theorem shipdays_complete_after_imputation:
  assumes wf: "wf_frame df"
    and od: "getitem df ''Order Date'' = Inr od" and sd: "getitem df ''Ship Date'' = Inr sd"
    and od_dt: "to_datetime parse od = Inr od_dt" and sd_dt: "to_datetime parse sd = Inr sd_dt"
    and delta: "sub_series sd_dt od_dt = Inr delta"
    and s: "s = dt_days delta"
    and one: "\<exists>c\<in>set s. c \<noteq> NA"
  shows "\<exists>out filled. add_feature_engineering parse sw df = Inr out
           \<and> getitem out ''ShipDays'' = Inr filled
           \<and> length filled = nrows df \<and> NA \<notin> set filled"
proof -
  define filled where "filled = (if NA \<in> set s then fillna s (series_median s) else s)"
  from afe_ship_days[OF od sd od_dt sd_dt delta s, of sw] obtain out where
    r: "add_feature_engineering parse sw df = Inr out" "getitem out ''ShipDays'' = Inr filled"
    unfolding filled_def by (elim exE conjE)
  have len: "length filled = nrows df"
    using ship_days_length[OF wf od sd od_dt sd_dt delta]
    by (simp add: filled_def s length_fillna)
  from one obtain c where c: "c \<in> set s" "c \<noteq> NA"
    by (elim bexE)
  have "c \<in> set (dt_days delta)"
    using c(1) by (simp add: s)
  then have "c = NA \<or> (\<exists>v. c = Num v)"
    by (rule dt_days_cells[of c delta])
  with c(2) obtain v where "c = Num v"
    by (elim disjE exE) simp_all
  with c(1) have "Num v \<in> set s"
    by simp
  then have "\<exists>m. series_median s = Num m"
    by (rule series_median_some)
  then obtain m where "series_median s = Num m"
    by (elim exE)
  then have "NA \<notin> set filled"
    by (auto simp: filled_def fillna_def)
  with r len show ?thesis
    by (intro exI conjI)
qed

theorem shipdays_complete_after_imputation_witness:
  "wf_frame scenario1
   \<and> getitem scenario1 ''Order Date'' = Inr [Str ''2023-01-05'', Str ''2023-02-01'', Str ''2023-03-15'']
   \<and> getitem scenario1 ''Ship Date'' = Inr [Str ''2023-01-10'', Str ''2023-02-03'', Str ''pending'']
   \<and> (\<exists>out filled. add_feature_engineering demo_parse False scenario1 = Inr out
           \<and> getitem out ''ShipDays'' = Inr filled
           \<and> length filled = nrows scenario1 \<and> NA \<notin> set filled)"
proof -
  have wf: "wf_frame scenario1"
    by (simp add: scenario1_def wf_frame_def)
  have od: "getitem scenario1 ''Order Date'' = Inr [Str ''2023-01-05'', Str ''2023-02-01'', Str ''2023-03-15'']"
    and sd: "getitem scenario1 ''Ship Date'' = Inr [Str ''2023-01-10'', Str ''2023-02-03'', Str ''pending'']"
    by (simp_all add: scenario1_def getitem_def)
  have od_dt: "to_datetime demo_parse [Str ''2023-01-05'', Str ''2023-02-01'', Str ''2023-03-15''] =
      Inr [TS \<lparr>ts_year = 2023, ts_month = 1, ts_ns = 1672876800000000000, ts_aware = False\<rparr>,
          TS \<lparr>ts_year = 2023, ts_month = 2, ts_ns = 1675209600000000000, ts_aware = False\<rparr>,
          TS \<lparr>ts_year = 2023, ts_month = 3, ts_ns = 1678838400000000000, ts_aware = False\<rparr>]"
    by (simp add: demo_parse_def to_datetime_def on_ok_def tz_aware_def has_naive_def)
  have sd_dt: "to_datetime demo_parse [Str ''2023-01-10'', Str ''2023-02-03'', Str ''pending''] =
      Inr [TS \<lparr>ts_year = 2023, ts_month = 1, ts_ns = 1673308800000000000, ts_aware = False\<rparr>,
          TS \<lparr>ts_year = 2023, ts_month = 2, ts_ns = 1675382400000000000, ts_aware = False\<rparr>,
          NA]"
    by (simp add: demo_parse_def to_datetime_def on_ok_def tz_aware_def has_naive_def)
  obtain delta where delta: "sub_series
         [TS \<lparr>ts_year = 2023, ts_month = 1, ts_ns = 1673308800000000000, ts_aware = False\<rparr>,
          TS \<lparr>ts_year = 2023, ts_month = 2, ts_ns = 1675382400000000000, ts_aware = False\<rparr>,
          NA]
         [TS \<lparr>ts_year = 2023, ts_month = 1, ts_ns = 1672876800000000000, ts_aware = False\<rparr>,
          TS \<lparr>ts_year = 2023, ts_month = 2, ts_ns = 1675209600000000000, ts_aware = False\<rparr>,
          TS \<lparr>ts_year = 2023, ts_month = 3, ts_ns = 1678838400000000000, ts_aware = False\<rparr>] = Inr delta"
    and s: "[Num 5, Num 2, NA] = dt_days delta"
    by (simp add: sub_series_def tz_aware_def dt_days_def)
  have x: "\<exists>out filled. add_feature_engineering demo_parse False scenario1 = Inr out
           \<and> getitem out ''ShipDays'' = Inr filled
           \<and> length filled = nrows scenario1 \<and> NA \<notin> set filled"
    by (rule shipdays_complete_after_imputation[OF wf od sd od_dt sd_dt delta s]) simp
  show ?thesis
    by (intro conjI wf od sd x)
qed

end
